theory Spec2Isabelle
  imports Main "HOL-Library.Word"
begin

section \<open>Values shared by the two packages\<close>

text \<open>
  The development embeds two Go packages of the helpdesk backend: the automation engine
  (\<^verbatim>\<open>package automation\<close>) and the message pipeline of the conversation manager
  (\<^verbatim>\<open>package conversation\<close>). Go's \<^verbatim>\<open>error\<close> values are a datatype, a \<^verbatim>\<open>nil\<close> error is
  \<open>None\<close>. Calls to the logger change nothing that is modelled and are left out.
\<close>

datatype error =
    ErrConversationNotFound
  | ErrorsNew string
  | Errorf string error
  | EnvelopeError string string
  | External string

definition GeneralError :: string where
  "GeneralError = ''GeneralException''"

text \<open>
  Every prepared statement and every storage helper that the packages call can fail. The
  environment decides which: \<open>db_error d op\<close> is the text of the database's error for
  the operation \<open>op\<close>, or \<open>None\<close> when it succeeds. The error value is \<open>External\<close> of
  the text: the database never returns one of the package's own error values.
\<close>

datatype dbop =
    GetPendingMessagesStmt
  | UpdateMessageStatusStmt
  | InsertMessageStmt
  | MessageExistsBySourceIDStmt
  | GetConversationUUIDFromMessageUUIDStmt
  | BeginTxx
  | CreateConversationOp
  | GetConversationUUIDOp
  | UpdateConversationLastMessageOp
  | UpdateConversationFirstReplyAtOp
  | AddConversationParticipantOp
  | GetEnabledRulesStmt
  | ToggleRuleStmt
  | UpdateRuleStmt
  | InsertRuleStmt
  | DeleteRuleStmt

type_synonym time = int

section \<open>Data of the automation engine\<close>

text \<open>
  \<^verbatim>\<open>models.Rule\<close>: the engine reads and writes the field \<^verbatim>\<open>Type\<close> only; the rest of a rule
  (its predicates and actions) is carried as \<open>r_Body\<close>.
\<close>

record Rule =
  r_Type :: string
  r_Body :: string

text \<open>
  \<^verbatim>\<open>models.RuleRecord\<close>, a row of rule storage. The Go code passes \<^verbatim>\<open>Name\<close>,
  \<^verbatim>\<open>Description\<close>, \<^verbatim>\<open>Type\<close> and \<^verbatim>\<open>Rules\<close> (a JSON list of rules) to the statements; the
  enabled flag is the one of the specification's data model.
\<close>

record RuleRecord =
  rr_ID :: int
  rr_Name :: string
  rr_Description :: string
  rr_Type :: string
  rr_Rules :: string
  rr_Enabled :: bool

text \<open>
  \<^verbatim>\<open>Engine\<close>: the rule snapshot, the two trigger queues and the closed flag. \<open>rule_table\<close>
  stands for the table that the prepared statements \<^verbatim>\<open>e.q\<close> read and write.
\<close>

record Engine =
  rules :: "Rule list"
  rule_table :: "RuleRecord list"
  newConversationQ :: "string list"
  updateConversationQ :: "string list"
  e_closed :: bool

section \<open>Data of the message pipeline\<close>

record Media =
  md_ID :: int
  md_UUID :: string
  md_Filename :: string
  md_ContentType :: string
  md_Disposition :: string

record Attachment =
  a_Name :: string
  a_Content :: string
  a_Header :: string

text \<open>
  \<^verbatim>\<open>models.Message\<close>, with the fields that the pipeline touches. \<^verbatim>\<open>SourceID\<close> is a nullable
  string (\<^verbatim>\<open>null.String\<close>): \<open>None\<close> is SQL's NULL.
\<close>

record Message =
  ID :: int
  UUID :: string
  CreatedAt :: time
  Type :: string
  Status :: string
  ConversationID :: int
  ConversationUUID :: string
  Content :: string
  SenderID :: int
  SenderType :: string
  Private :: bool
  ContentType :: string
  SourceID :: "string option"
  InboxID :: int
  Meta :: string
  Subject :: string
  References :: "string list"
  InReplyTo :: string
  From :: string
  To :: "string list"
  Attachments :: "Attachment list"
  Media :: "Media list"

type_synonym Contact = string

record IncomingMessage =
  im_Message :: Message
  im_Contact :: Contact
  im_InboxID :: int

text \<open>
  The capability interface of a channel: \<^verbatim>\<open>Channel()\<close>, \<^verbatim>\<open>FromAddress()\<close> and
  \<^verbatim>\<open>Send(message)\<close>.
\<close>

record Inbox =
  Channel :: string
  FromAddress :: string
  Send :: "Message \<Rightarrow> error option"

text \<open>
  A row of the conversations table, as the data model of the specification has it: identity,
  contact, inbox, the summary metadata seeded at creation and the first-reply timestamp.
\<close>

record Conversation =
  c_ID :: int
  c_UUID :: string
  c_ContactID :: int
  c_InboxID :: int
  c_Subject :: string
  c_LastMessage :: string
  c_LastMessageAt :: time
  c_FirstReplyAt :: "time option"

text \<open>
  The map that \<^verbatim>\<open>findOrCreateConversation\<close> marshals for a new conversation:
  \<^verbatim>\<open>subject\<close>, \<^verbatim>\<open>last_message\<close>, \<^verbatim>\<open>last_message_at\<close>.
\<close>

record ConversationMeta =
  meta_subject :: string
  meta_last_message :: string
  meta_last_message_at :: time

datatype ws_event =
    NewMessageEvent string string string time string bool
  | MessagePropUpdateEvent string string string string

datatype qarg = ArgStr string | ArgInt "64 word"

text \<open>
  \<^verbatim>\<open>Manager\<close>. The two tables stand for the database behind \<^verbatim>\<open>m.q\<close>.
  \<open>outgoingProcessingMessages\<close> is the \<^verbatim>\<open>sync.Map\<close> of in-flight message ids: the stored value
  is the key itself and is never read, so the keys are kept. The two queues are buffered
  channels with their capacities. \<open>sent\<close> is the trace of the messages handed to
  \<^verbatim>\<open>inbox.Send\<close>, \<open>broadcasts\<close> the trace of websocket events; \<open>attached_media\<close>,
  \<open>uploaded_media\<close> and \<open>participants\<close> record the writes to the media store and to the
  participants table.
\<close>

record Manager =
  messages :: "Message list"
  conversations :: "Conversation list"
  outgoingProcessingMessages :: "int list"
  outgoingMessageQueue :: "Message list"
  outgoingQueueCap :: nat
  incomingMessageQueue :: "IncomingMessage list"
  incomingQueueCap :: nat
  closed :: bool
  sent :: "Message list"
  broadcasts :: "ws_event list"
  attached_media :: "(int \<times> int) list"
  uploaded_media :: "(string \<times> int) list"
  participants :: "(int \<times> string) list"
  automation :: Engine

text \<open>
  The collaborators outside the two packages, and what the database generates: the
  outcome of each fallible call, the process clock (\<^verbatim>\<open>time.Now()\<close>), the timestamp and
  the UUID that the database gives an inserted message, the UUID of a new conversation,
  the contact, inbox and media stores, the template, JSON decoding of a rule list, and
  the helpers of \<^verbatim>\<open>stringutil\<close>, whose code is outside the source tree.
\<close>

record Deps =
  db_error :: "dbop \<Rightarrow> string option"
  now :: time
  created_at :: time
  new_message_uuid :: string
  new_conversation_uuid :: string
  contactStore_Upsert :: "Contact \<Rightarrow> error + int"
  inboxStore_Get :: "int \<Rightarrow> error + Inbox"
  template_RenderDefault :: "string \<Rightarrow> error + string"
  mediaStore_GetByModel :: "int \<Rightarrow> error + Media list"
  mediaStore_GetBlob :: "string \<Rightarrow> error + string"
  mediaStore_UploadAndInsert :: "string \<Rightarrow> int \<Rightarrow> bool"
  attachment_MakeHeader :: "Media \<Rightarrow> string"
  GetToAddress :: "int \<Rightarrow> string \<Rightarrow> string list"
  GetLatestReceivedMessageSourceID :: "int \<Rightarrow> string"
  SanitizeAndTruncate :: "string \<Rightarrow> nat \<Rightarrow> string"
  SanitizeFilename :: "string \<Rightarrow> string"
  json_Unmarshal :: "string \<Rightarrow> Rule list option"
  q_GetMessages :: "string \<Rightarrow> string"
  tx_Select :: "string \<Rightarrow> qarg list \<Rightarrow> error + Message list"

section \<open>The automation engine\<close>

definition MaxQueueSize :: nat where
  "MaxQueueSize = 5000"















text \<open>
  \<^verbatim>\<open>EvaluateNewConversationRules\<close>: nothing after \<^verbatim>\<open>Close\<close>; otherwise a send that does not
  block, dropped when the queue of \<open>MaxQueueSize\<close> places is full.
\<close>

definition EvaluateNewConversationRules :: "Engine \<Rightarrow> string \<Rightarrow> Engine" where
  "EvaluateNewConversationRules e conversationUUID =
     (if e_closed e then e
      else if length (newConversationQ e) < MaxQueueSize
           then e\<lparr>newConversationQ := newConversationQ e @ [conversationUUID]\<rparr>
           else e)"

section \<open>The message pipeline\<close>

definition MessageOutgoing :: string where
  "MessageOutgoing = ''outgoing''"

definition MessageStatusPending :: string where
  "MessageStatusPending = ''pending''"

definition MessageStatusSent :: string where
  "MessageStatusSent = ''sent''"

definition MessageStatusFailed :: string where
  "MessageStatusFailed = ''failed''"

definition maxLastMessageLen :: nat where
  "maxLastMessageLen = 45"

definition maxMessagesPerPage :: "64 word" where
  "maxMessagesPerPage = 30"

text \<open>
  Modelled from the spec: \<^verbatim>\<open>inbox.ChannelEmail\<close> is declared in the inbox package, outside
  the source tree; it names the one supported transport, email.
\<close>

definition ChannelEmail :: string where
  "ChannelEmail = ''email''"

subsection \<open>The in-flight set\<close>

text \<open>\<^verbatim>\<open>sync.Map\<close>'s \<^verbatim>\<open>Store\<close> and \<^verbatim>\<open>Delete\<close> on the keys.\<close>

definition Store :: "int \<Rightarrow> int list \<Rightarrow> int list" where
  "Store k ks = (if k \<in> set ks then ks else ks @ [k])"

definition Delete :: "int \<Rightarrow> int list \<Rightarrow> int list" where
  "Delete k ks = removeAll k ks"

definition getOutgoingProcessingMessageIDs :: "Manager \<Rightarrow> int list" where
  "getOutgoingProcessingMessageIDs m = outgoingProcessingMessages m"

subsection \<open>Statements and storage helpers outside the source tree\<close>

text \<open>
  Modelled from the spec: the statement \<^verbatim>\<open>get-pending-messages\<close> of \<^verbatim>\<open>queries.sql\<close>. The
  scanner "queries storage for messages in pending status, excluding ids currently in the
  in-flight set"; the store interface names it fetch-pending-outgoing-messages.
\<close>

definition GetPendingMessages :: "Message list \<Rightarrow> int list \<Rightarrow> Message list" where
  "GetPendingMessages table messageIDs =
     filter (\<lambda>x. Status x = MessageStatusPending \<and> Type x = MessageOutgoing \<and>
                  ID x \<notin> set messageIDs) table"

text \<open>
  Modelled from the spec: the statement \<^verbatim>\<open>update-message-status\<close>: the status of the
  message with the UUID is replaced.
\<close>

definition update_message_status :: "Message list \<Rightarrow> string \<Rightarrow> string \<Rightarrow> Message list" where
  "update_message_status table status uuid =
     map (\<lambda>x. if UUID x = uuid then x\<lparr>Status := status\<rparr> else x) table"

text \<open>
  Modelled from the spec: the statement behind \<^verbatim>\<open>MessageExistsBySourceID\<close>: the conversation
  id of the first stored message whose source id is among the given ids. A stored NULL
  source id matches nothing.
\<close>

fun MessageExistsBySourceID :: "Message list \<Rightarrow> string list \<Rightarrow> int option" where
  "MessageExistsBySourceID [] messageSourceIDs = None"
| "MessageExistsBySourceID (x # table) messageSourceIDs =
     (case SourceID x of
        None \<Rightarrow> MessageExistsBySourceID table messageSourceIDs
      | Some s \<Rightarrow>
          if s \<in> set messageSourceIDs then Some (ConversationID x)
          else MessageExistsBySourceID table messageSourceIDs)"

text \<open>
  Modelled from the spec: the statement behind \<^verbatim>\<open>GetConversationUUIDFromMessageUUID\<close>: the
  conversation UUID of the stored message with the UUID.
\<close>

fun conversation_uuid_of_message :: "Message list \<Rightarrow> string \<Rightarrow> string option" where
  "conversation_uuid_of_message [] uuid = None"
| "conversation_uuid_of_message (x # table) uuid =
     (if UUID x = uuid then Some (ConversationUUID x)
      else conversation_uuid_of_message table uuid)"

text \<open>
  Modelled from the spec: the statement \<^verbatim>\<open>insert-message\<close> stores the twelve columns it is
  given under the next id, a fresh UUID and the database's time of the insert, and returns
  these three. Messages are never deleted, so the next id is the number of rows plus one.
\<close>

definition insert_message_row :: "Deps \<Rightarrow> Message list \<Rightarrow> Message \<Rightarrow> Message" where
  "insert_message_row d table message =
     \<lparr>ID = int (length table) + 1, UUID = new_message_uuid d, CreatedAt = created_at d,
      Type = Type message, Status = Status message,
      ConversationID = ConversationID message,
      ConversationUUID = ConversationUUID message, Content = Content message,
      SenderID = SenderID message, SenderType = SenderType message,
      Private = Private message, ContentType = ContentType message,
      SourceID = SourceID message, InboxID = InboxID message, Meta = Meta message,
      Subject = [], References = [], InReplyTo = [], From = [], To = [],
      Attachments = [], Media = []\<rparr>"

text \<open>
  Modelled from the spec: \<^verbatim>\<open>CreateConversation\<close> is defined outside the source tree. It
  creates the conversation for the contact and the inbox, "seeding its summary metadata
  (subject, truncated last-message, timestamp)", and returns the new id and UUID.
  Conversations are never deleted, so the next id is the number of rows plus one.
\<close>

definition CreateConversation ::
  "Deps \<Rightarrow> Manager \<Rightarrow> int \<Rightarrow> int \<Rightarrow> ConversationMeta \<Rightarrow> int \<times> string \<times> error option \<times> Manager" where
  "CreateConversation d m contactID inboxID conversationMeta =
     (case db_error d CreateConversationOp of
        Some err \<Rightarrow> (0, [], Some (External err), m)
      | None \<Rightarrow>
          (let c = \<lparr>c_ID = int (length (conversations m)) + 1,
                     c_UUID = new_conversation_uuid d,
                     c_ContactID = contactID, c_InboxID = inboxID,
                     c_Subject = meta_subject conversationMeta,
                     c_LastMessage = meta_last_message conversationMeta,
                     c_LastMessageAt = meta_last_message_at conversationMeta,
                     c_FirstReplyAt = None\<rparr>
           in (c_ID c, c_UUID c, None, m\<lparr>conversations := conversations m @ [c]\<rparr>)))"

text \<open>
  Modelled from the spec: \<^verbatim>\<open>GetConversationUUID\<close> is defined outside the source tree: the
  UUID of the conversation with the id, an error when there is none.
\<close>

fun conversation_uuid_by_id :: "Conversation list \<Rightarrow> int \<Rightarrow> string option" where
  "conversation_uuid_by_id [] conversationID = None"
| "conversation_uuid_by_id (c # cs) conversationID =
     (if c_ID c = conversationID then Some (c_UUID c)
      else conversation_uuid_by_id cs conversationID)"

definition GetConversationUUID :: "Deps \<Rightarrow> Manager \<Rightarrow> int \<Rightarrow> error + string" where
  "GetConversationUUID d m conversationID =
     (case db_error d GetConversationUUIDOp of
        Some err \<Rightarrow> Inl (External err)
      | None \<Rightarrow>
          (case conversation_uuid_by_id (conversations m) conversationID of
             None \<Rightarrow> Inl ErrConversationNotFound
           | Some uuid \<Rightarrow> Inr uuid))"

text \<open>
  Modelled from the spec: \<^verbatim>\<open>UpdateConversationLastMessage\<close> is defined outside the source
  tree (the store's update-last-message-summary): it replaces the "last message" summary,
  truncated content and timestamp, of the conversation with the UUID. The id that
  \<^verbatim>\<open>InsertMessage\<close> passes is the constant 0. A failed update changes nothing.
\<close>

definition UpdateConversationLastMessage ::
  "Deps \<Rightarrow> Manager \<Rightarrow> int \<Rightarrow> string \<Rightarrow> string \<Rightarrow> time \<Rightarrow> Manager" where
  "UpdateConversationLastMessage d m conversationID conversationUUID lastMessage lastMessageAt =
     (case db_error d UpdateConversationLastMessageOp of
        Some err \<Rightarrow> m
      | None \<Rightarrow>
          m\<lparr>conversations :=
              map (\<lambda>c. if c_UUID c = conversationUUID
                        then c\<lparr>c_LastMessage := lastMessage, c_LastMessageAt := lastMessageAt\<rparr>
                        else c) (conversations m)\<rparr>)"

text \<open>
  Modelled from the spec: \<^verbatim>\<open>UpdateConversationFirstReplyAt\<close> is defined outside the source
  tree: the first-reply timestamp of the conversation is "set once", the first time only.
\<close>

definition UpdateConversationFirstReplyAt ::
  "Deps \<Rightarrow> Manager \<Rightarrow> string \<Rightarrow> int \<Rightarrow> time \<Rightarrow> Manager" where
  "UpdateConversationFirstReplyAt d m conversationUUID conversationID at =
     (case db_error d UpdateConversationFirstReplyAtOp of
        Some err \<Rightarrow> m
      | None \<Rightarrow>
          m\<lparr>conversations :=
              map (\<lambda>c. if c_UUID c = conversationUUID \<and> c_FirstReplyAt c = None
                        then c\<lparr>c_FirstReplyAt := Some at\<rparr> else c) (conversations m)\<rparr>)"

text \<open>
  Modelled from the spec: \<^verbatim>\<open>AddConversationParticipant\<close> is defined outside the source
  tree: it records the sender as a participant of the conversation, or fails.
\<close>

definition AddConversationParticipant ::
  "Deps \<Rightarrow> Manager \<Rightarrow> int \<Rightarrow> string \<Rightarrow> error option \<times> Manager" where
  "AddConversationParticipant d m userID conversationUUID =
     (case db_error d AddConversationParticipantOp of
        Some err \<Rightarrow> (Some (External err), m)
      | None \<Rightarrow> (None, m\<lparr>participants := participants m @ [(userID, conversationUUID)]\<rparr>))"

subsection \<open>Broadcasts\<close>

definition BroadcastNewConversationMessage ::
  "Manager \<Rightarrow> string \<Rightarrow> string \<Rightarrow> string \<Rightarrow> time \<Rightarrow> string \<Rightarrow> bool \<Rightarrow> Manager" where
  "BroadcastNewConversationMessage m conversationUUID content messageUUID lastMessageAt typ private =
     m\<lparr>broadcasts := broadcasts m @
          [NewMessageEvent conversationUUID content messageUUID lastMessageAt typ private]\<rparr>"

definition BroadcastMessagePropUpdate ::
  "Manager \<Rightarrow> string \<Rightarrow> string \<Rightarrow> string \<Rightarrow> string \<Rightarrow> Manager" where
  "BroadcastMessagePropUpdate m conversationUUID messageUUID prop val =
     m\<lparr>broadcasts := broadcasts m @
          [MessagePropUpdateEvent conversationUUID messageUUID prop val]\<rparr>"

subsection \<open>Message status\<close>

text \<open>
  \<^verbatim>\<open>getConversationUUIDFromMessageUUID\<close>; its caller drops the error and broadcasts under
  the empty UUID then.
\<close>

definition getConversationUUIDFromMessageUUID :: "Deps \<Rightarrow> Manager \<Rightarrow> string \<Rightarrow> string \<times> error option" where
  "getConversationUUIDFromMessageUUID d m uuid =
     (case db_error d GetConversationUUIDFromMessageUUIDStmt of
        Some err \<Rightarrow> ([], Some (External err))
      | None \<Rightarrow>
          (case conversation_uuid_of_message (messages m) uuid of
             None \<Rightarrow> ([], Some (External ''sql: no rows in result set''))
           | Some conversationUUID \<Rightarrow> (conversationUUID, None)))"

definition UpdateMessageStatus :: "Deps \<Rightarrow> Manager \<Rightarrow> string \<Rightarrow> string \<Rightarrow> error option \<times> Manager" where
  "UpdateMessageStatus d m uuid status =
     (case db_error d UpdateMessageStatusStmt of
        Some err \<Rightarrow> (Some (External err), m)
      | None \<Rightarrow>
          (let m1 = m\<lparr>messages := update_message_status (messages m) status uuid\<rparr>;
               conversationUUID = fst (getConversationUUIDFromMessageUUID d m1 uuid)
           in (None, BroadcastMessagePropUpdate m1 conversationUUID uuid ''status'' status)))"

definition MarkMessageAsPending :: "Deps \<Rightarrow> Manager \<Rightarrow> string \<Rightarrow> error option \<times> Manager" where
  "MarkMessageAsPending d m uuid =
     (case UpdateMessageStatus d m uuid MessageStatusPending of
        (Some err, m1) \<Rightarrow> (Some (EnvelopeError GeneralError ''Error retrying message''), m1)
      | (None, m1) \<Rightarrow> (None, m1))"

subsection \<open>The outgoing path\<close>

text \<open>
  \<^verbatim>\<open>RenderContentInTemplate\<close> receives the message by value. The rendered text is assigned
  to \<^verbatim>\<open>message.Content\<close> of the callee's copy; the function returns the error only. The
  model returns the callee's copy next to the error, so that what a caller does with
  either is visible.
\<close>

definition RenderContentInTemplate ::
  "Deps \<Rightarrow> Manager \<Rightarrow> Inbox \<Rightarrow> Message \<Rightarrow> (error option \<times> Message) \<times> Manager" where
  "RenderContentInTemplate d m inb message =
     (let channel = Channel inb in
      if channel = ChannelEmail then
        (case template_RenderDefault d (Content message) of
           Inl err \<Rightarrow>
             ((Some (Errorf ''could not render email content using template'' err), message),
              snd (UpdateMessageStatus d m (UUID message) MessageStatusFailed))
         | Inr rendered \<Rightarrow> ((None, message\<lparr>Content := rendered\<rparr>), m))
      else
        ((Some (ErrorsNew (''unknown message channel: '' @ channel)), message),
         snd (UpdateMessageStatus d m (UUID message) MessageStatusFailed)))"

text \<open>
  One tick of the scanner in \<^verbatim>\<open>ListenAndDispatchMessages\<close>: the body of the case
  \<^verbatim>\<open><-dbScanner.C\<close> is \<open>ListenAndDispatchMessages_tick\<close>, its loop over
  \<^verbatim>\<open>pendingMessages\<close> is \<open>scan_pending_messages\<close>. The loop skips a message whose inbox
  is not found or whose rendering fails; otherwise it stores the id in the in-flight set
  and sends the loop variable \<^verbatim>\<open>message\<close> on the outgoing queue. The send is a plain
  channel send: on a full queue the scanner waits there, which is the outcome
  \<open>ScanBlocked\<close>, with the state, the message in its hand and the messages not yet
  visited. A tick is followed on its own: no worker receives from the queue during it.
\<close>

datatype scan_outcome =
    ScanDone Manager
  | ScanBlocked Manager Message "Message list"

fun scan_pending_messages :: "Deps \<Rightarrow> Manager \<Rightarrow> Message list \<Rightarrow> scan_outcome" where
  "scan_pending_messages d m [] = ScanDone m"
| "scan_pending_messages d m (message # pendingMessages) =
     (case inboxStore_Get d (InboxID message) of
        Inl err \<Rightarrow> scan_pending_messages d m pendingMessages
      | Inr inb \<Rightarrow>
          (case RenderContentInTemplate d m inb message of
             ((Some err, callee_copy), m1) \<Rightarrow> scan_pending_messages d m1 pendingMessages
           | ((None, callee_copy), m1) \<Rightarrow>
               (let m2 = m1\<lparr>outgoingProcessingMessages :=
                            Store (ID message) (outgoingProcessingMessages m1)\<rparr>
                in if length (outgoingMessageQueue m2) < outgoingQueueCap m2
                   then scan_pending_messages d
                          (m2\<lparr>outgoingMessageQueue := outgoingMessageQueue m2 @ [message]\<rparr>)
                          pendingMessages
                   else ScanBlocked m2 message pendingMessages)))"

definition ListenAndDispatchMessages_tick :: "Deps \<Rightarrow> Manager \<Rightarrow> scan_outcome" where
  "ListenAndDispatchMessages_tick d m =
     (let messageIDs = getOutgoingProcessingMessageIDs m in
      case db_error d GetPendingMessagesStmt of
        Some err \<Rightarrow> ScanDone m
      | None \<Rightarrow> scan_pending_messages d m (GetPendingMessages (messages m) messageIDs))"

text \<open>The state in which a tick ends, or in which the scanner waits.\<close>

fun outcome_state :: "scan_outcome \<Rightarrow> Manager" where
  "outcome_state (ScanDone m) = m"
| "outcome_state (ScanBlocked m message pendingMessages) = m"

text \<open>
  The two ways in which the loop passes over a message without sending it: the inbox is
  not found (the message is left as it is), or the rendering fails (the message is marked
  failed).
\<close>

definition render_fails :: "Deps \<Rightarrow> Message \<Rightarrow> bool" where
  "render_fails d message =
     (case inboxStore_Get d (InboxID message) of
        Inl err \<Rightarrow> False
      | Inr inb \<Rightarrow>
          (if Channel inb = ChannelEmail
           then isl (template_RenderDefault d (Content message))
           else True))"

definition skipped :: "Deps \<Rightarrow> Message \<Rightarrow> bool" where
  "skipped d message = (isl (inboxStore_Get d (InboxID message)) \<or> render_fails d message)"

text \<open>\<^verbatim>\<open>attachAttachmentsToMessage\<close>: the first blob that cannot be fetched is the error.\<close>

fun fetch_blobs :: "Deps \<Rightarrow> Media list \<Rightarrow> Attachment list \<Rightarrow> error + Attachment list" where
  "fetch_blobs d [] attachments = Inr attachments"
| "fetch_blobs d (media # medias) attachments =
     (case mediaStore_GetBlob d (md_UUID media) of
        Inl err \<Rightarrow> Inl err
      | Inr blob \<Rightarrow>
          fetch_blobs d medias
            (attachments @ [\<lparr>a_Name = md_Filename media, a_Content = blob,
                              a_Header = attachment_MakeHeader d media\<rparr>]))"

definition attachAttachmentsToMessage :: "Deps \<Rightarrow> Message \<Rightarrow> error + Message" where
  "attachAttachmentsToMessage d message =
     (case mediaStore_GetByModel d (ID message) of
        Inl err \<Rightarrow> Inl err
      | Inr medias \<Rightarrow>
          (case fetch_blobs d medias [] of
             Inl err \<Rightarrow> Inl err
           | Inr attachments \<Rightarrow> Inr (message\<lparr>Attachments := attachments\<rparr>)))"

text \<open>
  The three assignments before the send: the inbox's from-address, the to-address of the
  conversation and the source id of the latest received message as \<^verbatim>\<open>InReplyTo\<close>. The
  errors of the two lookups are dropped by the caller.
\<close>

definition address_message :: "Deps \<Rightarrow> Inbox \<Rightarrow> Message \<Rightarrow> Message" where
  "address_message d inbox message =
     message\<lparr>From := FromAddress inbox,
             To := GetToAddress d (ConversationID message) (Channel inbox),
             InReplyTo := GetLatestReceivedMessageSourceID d (ConversationID message)\<rparr>"

text \<open>
  The body of \<^verbatim>\<open>MessageDispatchWorker\<close>'s loop for one message received from the outgoing
  queue.
\<close>

definition dispatch_message :: "Deps \<Rightarrow> Manager \<Rightarrow> Message \<Rightarrow> Manager" where
  "dispatch_message d m message =
     (case inboxStore_Get d (InboxID message) of
        Inl err \<Rightarrow>
          snd (UpdateMessageStatus d
                 (m\<lparr>outgoingProcessingMessages := Delete (ID message) (outgoingProcessingMessages m)\<rparr>)
                 (UUID message) MessageStatusFailed)
      | Inr inbox \<Rightarrow>
          (case attachAttachmentsToMessage d message of
             Inl err \<Rightarrow>
               snd (UpdateMessageStatus d
                      (m\<lparr>outgoingProcessingMessages := Delete (ID message) (outgoingProcessingMessages m)\<rparr>)
                      (UUID message) MessageStatusFailed)
           | Inr message1 \<Rightarrow>
               (let message2 = address_message d inbox message1;
                    err = Send inbox message2;
                    m1 = m\<lparr>sent := sent m @ [message2]\<rparr>;
                    newStatus = (if err \<noteq> None then MessageStatusFailed else MessageStatusSent);
                    m2 = snd (UpdateMessageStatus d m1 (UUID message2) newStatus);
                    m3 = (if newStatus = MessageStatusSent
                          then UpdateConversationFirstReplyAt d m2 (ConversationUUID message2)
                                 (ConversationID message2) (CreatedAt message2)
                          else m2)
                in m3\<lparr>outgoingProcessingMessages :=
                        Delete (ID message2) (outgoingProcessingMessages m3)\<rparr>)))"

text \<open>
  The three failures of a dispatch: the inbox is not found, the attachments cannot be
  attached, or the channel's send returns an error.
\<close>

definition dispatch_fails :: "Deps \<Rightarrow> Message \<Rightarrow> bool" where
  "dispatch_fails d message =
     (case inboxStore_Get d (InboxID message) of
        Inl err \<Rightarrow> True
      | Inr inbox \<Rightarrow>
          (case attachAttachmentsToMessage d message of
             Inl err \<Rightarrow> True
           | Inr message1 \<Rightarrow> Send inbox (address_message d inbox message1) \<noteq> None))"

text \<open>
  One receive of \<^verbatim>\<open>MessageDispatchWorker\<close>: the head of the queue is taken and dispatched;
  on an empty queue the worker waits and nothing changes.
\<close>

definition MessageDispatchWorker :: "Deps \<Rightarrow> Manager \<Rightarrow> Manager" where
  "MessageDispatchWorker d m =
     (case outgoingMessageQueue m of
        [] \<Rightarrow> m
      | message # queue \<Rightarrow> dispatch_message d (m\<lparr>outgoingMessageQueue := queue\<rparr>) message)"

subsection \<open>Inserting a message\<close>

text \<open>
  \<^verbatim>\<open>InsertMessage\<close> takes a pointer: the message it returns is the caller's message after
  the call.
\<close>

definition InsertMessage :: "Deps \<Rightarrow> Manager \<Rightarrow> Message \<Rightarrow> (error option \<times> Message) \<times> Manager" where
  "InsertMessage d m message =
     (let message1 = (if Private message then message\<lparr>Status := MessageStatusSent\<rparr> else message);
          message2 = (if Meta message1 = [] then message1\<lparr>Meta := ''{}''\<rparr> else message1)
      in case db_error d InsertMessageStmt of
           Some err \<Rightarrow> ((Some (EnvelopeError GeneralError ''Error sending message''), message2), m)
         | None \<Rightarrow>
             (let row = insert_message_row d (messages m) message2;
                  message3 = message2\<lparr>ID := ID row, UUID := UUID row, CreatedAt := CreatedAt row\<rparr>;
                  m1 = m\<lparr>messages := messages m @ [row]\<rparr>;
                  m2 = m1\<lparr>attached_media := attached_media m1 @
                            map (\<lambda>media. (md_ID media, ID message3)) (Media message3)\<rparr>
              in case AddConversationParticipant d m2 (SenderID message3) (ConversationUUID message3) of
                   (Some err, m3) \<Rightarrow>
                     ((Some (EnvelopeError GeneralError ''Error sending message''), message3), m3)
                 | (None, m3) \<Rightarrow>
                     (let trimmedMessage = SanitizeAndTruncate d (Content message3) 45;
                          m4 = UpdateConversationLastMessage d m3 0 (ConversationUUID message3)
                                 trimmedMessage (CreatedAt message3);
                          m5 = BroadcastNewConversationMessage m4 (ConversationUUID message3)
                                 trimmedMessage (UUID message3) (CreatedAt message3)
                                 (Type message3) (Private message3)
                      in ((None, message3), m5))))"

subsection \<open>The incoming path\<close>

definition findConversationID :: "Deps \<Rightarrow> Manager \<Rightarrow> string list \<Rightarrow> int \<times> error option" where
  "findConversationID d m messageSourceIDs =
     (if length messageSourceIDs = 0 then (0, Some ErrConversationNotFound)
      else case db_error d MessageExistsBySourceIDStmt of
             Some err \<Rightarrow> (0, Some (External err))
           | None \<Rightarrow>
               (case MessageExistsBySourceID (messages m) messageSourceIDs of
                  None \<Rightarrow> (0, Some ErrConversationNotFound)
                | Some conversationID \<Rightarrow> (conversationID, None)))"

text \<open>
  The source ids that \<^verbatim>\<open>findOrCreateConversation\<close> searches a conversation by: the
  references of the message, and its \<^verbatim>\<open>InReplyTo\<close> when that is not empty.
\<close>

definition thread_source_ids :: "Message \<Rightarrow> string list" where
  "thread_source_ids inm =
     (if InReplyTo inm \<noteq> [] then References inm @ [InReplyTo inm] else References inm)"

text \<open>
  \<^verbatim>\<open>findOrCreateConversation\<close> takes the message by pointer and returns whether the
  conversation is new. \<^verbatim>\<open>json.Marshal\<close> of a map of strings does not fail, so the branch
  on its error is not reached. In the branch of a found conversation the local
  \<^verbatim>\<open>conversationUUID\<close> is still empty, so \<^verbatim>\<open>GetConversationUUID\<close> is always called.
\<close>

definition findOrCreateConversation ::
  "Deps \<Rightarrow> Manager \<Rightarrow> Message \<Rightarrow> int \<Rightarrow> int \<Rightarrow> (bool \<times> error option \<times> Message) \<times> Manager" where
  "findOrCreateConversation d m inm inboxID contactID =
     (let sourceIDs = thread_source_ids inm;
          found = findConversationID d m sourceIDs;
          conversationID = fst found;
          err = snd found
      in if err \<noteq> None \<and> err \<noteq> Some ErrConversationNotFound then ((False, err, inm), m)
         else if conversationID = 0 then
           (let conversationMeta =
                  \<lparr>meta_subject = Subject inm,
                   meta_last_message = SanitizeAndTruncate d (Content inm) maxLastMessageLen,
                   meta_last_message_at = now d\<rparr>
            in case CreateConversation d m contactID inboxID conversationMeta of
                 (newID, newUUID, cerr, m1) \<Rightarrow>
                   if cerr \<noteq> None \<or> newID = 0 then ((True, cerr, inm), m1)
                   else ((True, None,
                          inm\<lparr>ConversationID := newID, ConversationUUID := newUUID\<rparr>), m1))
         else
           (case GetConversationUUID d m conversationID of
              Inl uerr \<Rightarrow> ((False, Some uerr, inm), m)
            | Inr conversationUUID \<Rightarrow>
                ((False, None,
                  inm\<lparr>ConversationID := conversationID,
                       ConversationUUID := conversationUUID\<rparr>), m)))"

text \<open>
  \<^verbatim>\<open>uploadMessageAttachments\<close>: an upload that fails is skipped; the function returns
  \<^verbatim>\<open>nil\<close> always.
\<close>

fun uploadMessageAttachments :: "Deps \<Rightarrow> Manager \<Rightarrow> int \<Rightarrow> Attachment list \<Rightarrow> Manager" where
  "uploadMessageAttachments d m messageID [] = m"
| "uploadMessageAttachments d m messageID (attachment # attachments) =
     (let name = SanitizeFilename d (a_Name attachment)
      in if mediaStore_UploadAndInsert d name messageID
         then uploadMessageAttachments d
                (m\<lparr>uploaded_media := uploaded_media m @ [(name, messageID)]\<rparr>)
                messageID attachments
         else uploadMessageAttachments d m messageID attachments)"

text \<open>\<^verbatim>\<open>in.Message.SourceID.String\<close>: the empty string for a NULL source id.\<close>

definition null_String :: "string option \<Rightarrow> string" where
  "null_String s = (case s of None \<Rightarrow> [] | Some v \<Rightarrow> v)"

definition processIncomingMessage :: "Deps \<Rightarrow> Manager \<Rightarrow> IncomingMessage \<Rightarrow> error option \<times> Manager" where
  "processIncomingMessage d m inc =
     (case contactStore_Upsert d (im_Contact inc) of
        Inl err \<Rightarrow> (Some err, m)
      | Inr senderID \<Rightarrow>
          (let message = (im_Message inc)\<lparr>SenderID := senderID\<rparr>;
               found = findConversationID d m [null_String (SourceID message)];
               conversationID = fst found;
               err = snd found
           in if err \<noteq> None \<and> err \<noteq> Some ErrConversationNotFound then (err, m)
              else if conversationID > 0 then (None, m)
              else
                (case findOrCreateConversation d m message (im_InboxID inc) (SenderID message) of
                   ((isNewConversation, Some ferr, message1), m1) \<Rightarrow> (Some ferr, m1)
                 | ((isNewConversation, None, message1), m1) \<Rightarrow>
                     (case InsertMessage d m1 message1 of
                        ((Some ierr, message2), m2) \<Rightarrow> (Some ierr, m2)
                      | ((None, message2), m2) \<Rightarrow>
                          (let m3 = uploadMessageAttachments d m2 (ID message2) (Attachments message2)
                           in if isNewConversation
                              then (None, m3\<lparr>automation :=
                                      EvaluateNewConversationRules (automation m3)
                                        (ConversationUUID message2)\<rparr>)
                              else (None, m3))))))"

text \<open>
  \<^verbatim>\<open>EnqueueIncoming\<close>, under the lock \<^verbatim>\<open>closedMu\<close> that \<^verbatim>\<open>Close\<close> also takes: a send with a
  \<^verbatim>\<open>default\<close> branch, which never waits.
\<close>

definition EnqueueIncoming :: "Manager \<Rightarrow> IncomingMessage \<Rightarrow> error option \<times> Manager" where
  "EnqueueIncoming m message =
     (if closed m then (Some (ErrorsNew ''incoming message queue is closed''), m)
      else if length (incomingMessageQueue m) < incomingQueueCap m
           then (None, m\<lparr>incomingMessageQueue := incomingMessageQueue m @ [message]\<rparr>)
           else (Some (ErrorsNew ''incoming message queue is full''), m))"

text \<open>
  \<^verbatim>\<open>Close\<close> sets the flag under the same lock and closes the two channels; what they hold
  stays readable by the workers it then waits for.
\<close>

definition Close :: "Manager \<Rightarrow> Manager" where
  "Close m = m\<lparr>closed := True\<rparr>"

text \<open>
  One receive of \<^verbatim>\<open>IncomingMessageWorker\<close>: the error of the processing is logged and
  dropped.
\<close>

definition IncomingMessageWorker :: "Deps \<Rightarrow> Manager \<Rightarrow> Manager" where
  "IncomingMessageWorker d m =
     (case incomingMessageQueue m of
        [] \<Rightarrow> m
      | msg # queue \<Rightarrow> snd (processIncomingMessage d (m\<lparr>incomingMessageQueue := queue\<rparr>) msg))"

subsection \<open>Reading the messages of a conversation\<close>

text \<open>
  Go's \<^verbatim>\<open>int\<close> is a 64-bit two's complement integer here: comparisons are signed,
  subtraction and multiplication wrap around. \<^verbatim>\<open>fmt.Sprintf("LIMIT $%d OFFSET $%d", ...)\<close>
  prints the two positions in decimal.
\<close>

function show_nat :: "nat \<Rightarrow> string" where
  "show_nat n =
     (if n < 10 then [''0123456789'' ! n]
      else show_nat (n div 10) @ [''0123456789'' ! (n mod 10)])"
  by pat_completeness auto
termination
  by (relation "measure id") auto

declare show_nat.simps [simp del]

text \<open>
  The base query is a format string with one verb; it is given as the function from the
  text put in place of the verb to the resulting SQL.
\<close>

definition generateMessagesQuery ::
  "(string \<Rightarrow> string) \<Rightarrow> qarg list \<Rightarrow> 64 word \<Rightarrow> 64 word \<Rightarrow> string \<times> qarg list \<times> error option" where
  "generateMessagesQuery baseQuery qArgs page pageSize =
     (let page1 = (if page \<le>s 0 then 1 else page);
          pageSize1 = (if pageSize \<le>s 0 \<or> maxMessagesPerPage <s pageSize
                       then maxMessagesPerPage else pageSize);
          offset = (page1 - 1) * pageSize1;
          qArgs1 = qArgs @ [ArgInt pageSize1, ArgInt offset];
          sqlQuery = baseQuery (''LIMIT $'' @ show_nat (length qArgs1 - 1) @
                                '' OFFSET $'' @ show_nat (length qArgs1))
      in (sqlQuery, qArgs1, None))"

text \<open>
  \<^verbatim>\<open>GetConversationMessages\<close>. The rollback is deferred before the error of \<^verbatim>\<open>BeginTxx\<close>
  is looked at: when the transaction cannot be begun, \<^verbatim>\<open>tx\<close> is a nil pointer and the
  \<^verbatim>\<open>defer\<close> statement dereferences it, which panics.
\<close>

datatype 'a outcome = Returned 'a | Panicked

definition GetConversationMessages ::
  "Deps \<Rightarrow> string \<Rightarrow> 64 word \<Rightarrow> 64 word \<Rightarrow> (Message list \<times> error option) outcome" where
  "GetConversationMessages d conversationUUID page pageSize =
     (case generateMessagesQuery (q_GetMessages d) [ArgStr conversationUUID] page pageSize of
        (query, qArgs, Some err) \<Rightarrow>
          Returned ([], Some (EnvelopeError GeneralError ''Error fetching messages''))
      | (query, qArgs, None) \<Rightarrow>
          (case db_error d BeginTxx of
             Some err \<Rightarrow> Panicked
           | None \<Rightarrow>
               (case tx_Select d query qArgs of
                  Inl err \<Rightarrow>
                    Returned ([], Some (EnvelopeError GeneralError ''Error fetching messages''))
                | Inr msgs \<Rightarrow> Returned (msgs, None))))"

section \<open>Concrete inputs\<close>

text \<open>
  An environment in which every collaborator succeeds: an email inbox whose send succeeds,
  a template that wraps the content in markup, a truncation that keeps a prefix.
\<close>

definition email_inbox :: Inbox where
  "email_inbox = \<lparr>Channel = ''email'', FromAddress = ''support@example.com'',
                   Send = (\<lambda>message. None)\<rparr>"

definition deps_ok :: Deps where
  "deps_ok =
     \<lparr>db_error = (\<lambda>op. None), now = 1000, created_at = 1001,
      new_message_uuid = ''m-new'', new_conversation_uuid = ''c-new'',
      contactStore_Upsert = (\<lambda>contact. Inr 7),
      inboxStore_Get = (\<lambda>inboxID. Inr email_inbox),
      template_RenderDefault = (\<lambda>content. Inr (''<html>'' @ content @ ''</html>'')),
      mediaStore_GetByModel = (\<lambda>messageID. Inr []),
      mediaStore_GetBlob = (\<lambda>uuid. Inr []),
      mediaStore_UploadAndInsert = (\<lambda>name messageID. True),
      attachment_MakeHeader = (\<lambda>media. []),
      GetToAddress = (\<lambda>conversationID channel. [''customer@example.com'']),
      GetLatestReceivedMessageSourceID = (\<lambda>conversationID. ''<in-1@example.com>''),
      SanitizeAndTruncate = (\<lambda>content maxLen. take maxLen content),
      SanitizeFilename = (\<lambda>name. name),
      json_Unmarshal = (\<lambda>js. if js = ''[]'' then Some [] else Some [\<lparr>r_Type = [], r_Body = js\<rparr>]),
      q_GetMessages = (\<lambda>clause. ''SELECT * FROM messages WHERE conversation_uuid = $1 '' @ clause),
      tx_Select = (\<lambda>query qArgs. Inr [])\<rparr>"

text \<open>An engine on a rule storage of two enabled rules.\<close>

definition engine0 :: Engine where
  "engine0 = \<lparr>rules = [], rule_table = [], newConversationQ = [],
               updateConversationQ = [], e_closed = False\<rparr>"




text \<open>
  A manager whose storage holds one conversation and one pending outgoing reply to it, and
  an incoming message that starts a thread.
\<close>

definition reply1 :: Message where
  "reply1 =
     \<lparr>ID = 1, UUID = ''m-1'', CreatedAt = 900, Type = ''outgoing'', Status = ''pending'',
      ConversationID = 1, ConversationUUID = ''c-1'', Content = ''hello'',
      SenderID = 3, SenderType = ''user'', Private = False, ContentType = ''text'',
      SourceID = None, InboxID = 1, Meta = ''{}'', Subject = [], References = [],
      InReplyTo = [], From = [], To = [], Attachments = [], Media = []\<rparr>"

definition conversation1 :: Conversation where
  "conversation1 =
     \<lparr>c_ID = 1, c_UUID = ''c-1'', c_ContactID = 7, c_InboxID = 1, c_Subject = ''Help'',
      c_LastMessage = ''older'', c_LastMessageAt = 800, c_FirstReplyAt = None\<rparr>"

definition manager1 :: Manager where
  "manager1 =
     \<lparr>messages = [reply1], conversations = [conversation1],
      outgoingProcessingMessages = [], outgoingMessageQueue = [], outgoingQueueCap = 1,
      incomingMessageQueue = [], incomingQueueCap = 1, closed = False, sent = [],
      broadcasts = [], attached_media = [], uploaded_media = [], participants = [],
      automation = engine0\<rparr>"

definition incoming1 :: IncomingMessage where
  "incoming1 =
     \<lparr>im_Message =
        \<lparr>ID = 0, UUID = [], CreatedAt = 0, Type = ''incoming'', Status = ''received'',
         ConversationID = 0, ConversationUUID = [], Content = ''I need help'',
         SenderID = 0, SenderType = ''contact'', Private = False, ContentType = ''text'',
         SourceID = Some ''<a1@example.com>'', InboxID = 1, Meta = [], Subject = ''Help'',
         References = [], InReplyTo = [], From = [], To = [], Attachments = [],
         Media = []\<rparr>,
      im_Contact = ''alice@example.com'', im_InboxID = 1\<rparr>"


text \<open>
  An inbox whose send fails, and the environment that resolves every inbox to it.
\<close>

definition failing_inbox :: Inbox where
  "failing_inbox = \<lparr>Channel = ''email'', FromAddress = ''support@example.com'',
                     Send = (\<lambda>message. Some (External ''smtp: connection refused''))\<rparr>"

definition deps_send_fails :: Deps where
  "deps_send_fails = deps_ok\<lparr>inboxStore_Get := (\<lambda>inboxID. Inr failing_inbox)\<rparr>"

text \<open>
  The manager after the scanner has enqueued the pending reply; the same after a worker
  has received it; and a manager whose storage holds a second pending reply while the
  first still fills the queue of one place.
\<close>

definition manager_dispatching :: Manager where
  "manager_dispatching =
     manager1\<lparr>outgoingProcessingMessages := [1], outgoingMessageQueue := [reply1]\<rparr>"

definition manager_in_flight :: Manager where
  "manager_in_flight = manager1\<lparr>outgoingProcessingMessages := [1]\<rparr>"

definition reply2 :: Message where
  "reply2 = reply1\<lparr>ID := 2, UUID := ''m-2'', Content := ''second''\<rparr>"

definition manager_full :: Manager where
  "manager_full =
     manager1\<lparr>messages := [reply1, reply2], outgoingProcessingMessages := [1],
              outgoingMessageQueue := [reply1]\<rparr>"

text \<open>
  A manager that has stored an incoming message under its source id; a reply to that
  message; an environment whose contact store fails, one in which adding a participant
  fails; and a new outgoing reply.
\<close>

definition received1 :: Message where
  "received1 =
     \<lparr>ID = 2, UUID = ''m-in-1'', CreatedAt = 850, Type = ''incoming'', Status = ''received'',
      ConversationID = 1, ConversationUUID = ''c-1'', Content = ''I need help'',
      SenderID = 7, SenderType = ''contact'', Private = False, ContentType = ''text'',
      SourceID = Some ''<a1@example.com>'', InboxID = 1, Meta = ''{}'', Subject = [],
      References = [], InReplyTo = [], From = [], To = [], Attachments = [], Media = []\<rparr>"

definition manager_seen :: Manager where
  "manager_seen = manager1\<lparr>messages := [reply1, received1]\<rparr>"

definition incoming_reply :: IncomingMessage where
  "incoming_reply =
     incoming1\<lparr>im_Message :=
       (im_Message incoming1)\<lparr>Content := ''Any news?'', SourceID := Some ''<a2@example.com>'',
                               InReplyTo := ''<a1@example.com>''\<rparr>\<rparr>"

definition deps_upsert_fails :: Deps where
  "deps_upsert_fails =
     deps_ok\<lparr>contactStore_Upsert := (\<lambda>contact. Inl (External ''contact store unavailable''))\<rparr>"

definition deps_participant_fails :: Deps where
  "deps_participant_fails =
     deps_ok\<lparr>db_error := (\<lambda>op. if op = AddConversationParticipantOp
                                  then Some ''connection lost'' else None)\<rparr>"

definition new_reply :: Message where
  "new_reply = reply1\<lparr>ID := 0, UUID := [], Content := ''thanks''\<rparr>"

section \<open>Facts about the storage helpers\<close>


lemma failed_not_pending: "MessageStatusFailed \<noteq> MessageStatusPending"
  by (simp add: MessageStatusFailed_def MessageStatusPending_def)

lemma failed_not_sent: "MessageStatusFailed \<noteq> MessageStatusSent"
  by (simp add: MessageStatusFailed_def MessageStatusSent_def)




lemma messages_UpdateConversationLastMessage [simp]:
  "messages (UpdateConversationLastMessage d m i u c t) = messages m"
  by (simp add: UpdateConversationLastMessage_def split: option.splits)

lemma messages_BroadcastNewConversationMessage [simp]:
  "messages (BroadcastNewConversationMessage m a b c t e f) = messages m"
  by (simp add: BroadcastNewConversationMessage_def)

lemma messages_AddConversationParticipant [simp]:
  "messages (snd (AddConversationParticipant d m u c)) = messages m"
  by (simp add: AddConversationParticipant_def split: option.splits)


lemma InsertMessage_inserted:
  "db_error d InsertMessageStmt = None \<Longrightarrow>
   \<exists>row. messages (snd (InsertMessage d m message)) = messages m @ [row] \<and>
     ID row = int (length (messages m)) + 1 \<and> UUID row = new_message_uuid d \<and>
     CreatedAt row = created_at d \<and>
     Status row = (if Private message then MessageStatusSent else Status message) \<and>
     Type row = Type message \<and> Private row = Private message \<and>
     Content row = Content message \<and> SourceID row = SourceID message \<and>
     ConversationID row = ConversationID message \<and>
     ConversationUUID row = ConversationUUID message \<and>
     ID (snd (fst (InsertMessage d m message))) = ID row \<and>
     UUID (snd (fst (InsertMessage d m message))) = UUID row \<and>
     CreatedAt (snd (fst (InsertMessage d m message))) = CreatedAt row"
  by (simp add: InsertMessage_def Let_def insert_message_row_def AddConversationParticipant_def
      split: option.splits)

lemma show_nat_2: "show_nat (Suc (Suc 0)) = ''2''"
  by (simp add: show_nat.simps[of "Suc (Suc 0)"])

lemma show_nat_3: "show_nat (Suc (Suc (Suc 0))) = ''3''"
  by (simp add: show_nat.simps[of "Suc (Suc (Suc 0))"])

lemma sint_clamped_pageSize:
  fixes pageSize :: "64 word"
  shows "1 \<le> sint (if pageSize \<le>s 0 \<or> maxMessagesPerPage <s pageSize
                     then maxMessagesPerPage else pageSize) \<and>
         sint (if pageSize \<le>s 0 \<or> maxMessagesPerPage <s pageSize
               then maxMessagesPerPage else pageSize) \<le> 30"
  by (auto simp: maxMessagesPerPage_def word_sle_eq word_sless_alt)

lemma sint_offset_no_overflow:
  fixes page limit :: "64 word"
  assumes "0 < sint page" "sint page \<le> 307445734561825861"
    and "1 \<le> sint limit" "sint limit \<le> 30"
  shows "sint ((page - 1) * limit) = (sint page - 1) * sint limit"
proof -
  have p1: "sint (page - 1) = sint page - 1"
    using assms(1) sint_lt[of page]
    by (simp add: sint_word_ariths signed_take_bit_int_eq_self)
  have lo: "0 \<le> (sint page - 1) * sint limit"
    using assms by simp
  have "(sint page - 1) * sint limit \<le> 307445734561825860 * 30"
    using assms by (intro mult_mono) auto
  then have hi: "(sint page - 1) * sint limit < 2 ^ 63" by simp
  show ?thesis
    using lo hi p1
    by (simp add: sint_word_ariths signed_take_bit_int_eq_self)
qed

subsection \<open>The fields of the concrete inputs\<close>

lemma deps_ok_simps [simp]:
  "db_error deps_ok = (\<lambda>op. None)"
  "now deps_ok = 1000"
  "created_at deps_ok = 1001"
  "new_message_uuid deps_ok = ''m-new''"
  "new_conversation_uuid deps_ok = ''c-new''"
  "contactStore_Upsert deps_ok = (\<lambda>contact. Inr 7)"
  "inboxStore_Get deps_ok = (\<lambda>inboxID. Inr email_inbox)"
  "template_RenderDefault deps_ok = (\<lambda>content. Inr (''<html>'' @ content @ ''</html>''))"
  "mediaStore_GetByModel deps_ok = (\<lambda>messageID. Inr [])"
  "mediaStore_UploadAndInsert deps_ok = (\<lambda>name messageID. True)"
  "GetToAddress deps_ok = (\<lambda>conversationID channel. [''customer@example.com''])"
  "GetLatestReceivedMessageSourceID deps_ok = (\<lambda>conversationID. ''<in-1@example.com>'')"
  "SanitizeAndTruncate deps_ok = (\<lambda>content maxLen. take maxLen content)"
  "SanitizeFilename deps_ok = (\<lambda>name. name)"
  by (simp_all add: deps_ok_def)

lemma email_inbox_simps [simp]:
  "Channel email_inbox = ''email''"
  "FromAddress email_inbox = ''support@example.com''"
  "Send email_inbox = (\<lambda>message. None)"
  by (simp_all add: email_inbox_def)

lemma manager1_simps [simp]:
  "messages manager1 = [reply1]"
  "conversations manager1 = [conversation1]"
  "outgoingProcessingMessages manager1 = []"
  "outgoingMessageQueue manager1 = []"
  "outgoingQueueCap manager1 = 1"
  "incomingMessageQueue manager1 = []"
  "incomingQueueCap manager1 = 1"
  "closed manager1 = False"
  "sent manager1 = []"
  "broadcasts manager1 = []"
  "participants manager1 = []"
  "automation manager1 = engine0"
  by (simp_all add: manager1_def)

lemma reply1_simps [simp]:
  "ID reply1 = 1"
  "UUID reply1 = ''m-1''"
  "CreatedAt reply1 = 900"
  "Type reply1 = ''outgoing''"
  "Status reply1 = ''pending''"
  "ConversationID reply1 = 1"
  "ConversationUUID reply1 = ''c-1''"
  "Content reply1 = ''hello''"
  "Private reply1 = False"
  "InboxID reply1 = 1"
  "SourceID reply1 = None"
  by (simp_all add: reply1_def)

lemma conversation1_simps [simp]:
  "c_ID conversation1 = 1"
  "c_UUID conversation1 = ''c-1''"
  "c_LastMessage conversation1 = ''older''"
  "c_LastMessageAt conversation1 = 800"
  "c_FirstReplyAt conversation1 = None"
  by (simp_all add: conversation1_def)

lemma failing_inbox_simps [simp]:
  "Channel failing_inbox = ''email''"
  "FromAddress failing_inbox = ''support@example.com''"
  "Send failing_inbox = (\<lambda>message. Some (External ''smtp: connection refused''))"
  by (simp_all add: failing_inbox_def)

lemma deps_send_fails_simps [simp]:
  "db_error deps_send_fails = (\<lambda>op. None)"
  "inboxStore_Get deps_send_fails = (\<lambda>inboxID. Inr failing_inbox)"
  "mediaStore_GetByModel deps_send_fails = (\<lambda>messageID. Inr [])"
  "GetToAddress deps_send_fails = (\<lambda>conversationID channel. [''customer@example.com''])"
  "GetLatestReceivedMessageSourceID deps_send_fails = (\<lambda>conversationID. ''<in-1@example.com>'')"
  by (simp_all add: deps_send_fails_def)

lemma reply2_simps [simp]:
  "ID reply2 = 2"
  "UUID reply2 = ''m-2''"
  "Type reply2 = ''outgoing''"
  "Status reply2 = ''pending''"
  "Content reply2 = ''second''"
  "InboxID reply2 = 1"
  by (simp_all add: reply2_def)

lemma manager_full_simps [simp]:
  "messages manager_full = [reply1, reply2]"
  "outgoingProcessingMessages manager_full = [1]"
  "outgoingMessageQueue manager_full = [reply1]"
  "outgoingQueueCap manager_full = 1"
  by (simp_all add: manager_full_def)

lemma received1_simps [simp]:
  "SourceID received1 = Some ''<a1@example.com>''"
  "ConversationID received1 = 1"
  by (simp_all add: received1_def)

lemma manager_seen_simps [simp]:
  "messages manager_seen = [reply1, received1]"
  "conversations manager_seen = [conversation1]"
  by (simp_all add: manager_seen_def)

lemma incoming1_simps [simp]:
  "SourceID (im_Message incoming1) = Some ''<a1@example.com>''"
  "InReplyTo (im_Message incoming1) = []"
  "References (im_Message incoming1) = []"
  "Content (im_Message incoming1) = ''I need help''"
  "Private (im_Message incoming1) = False"
  "Meta (im_Message incoming1) = []"
  "Media (im_Message incoming1) = []"
  "Attachments (im_Message incoming1) = []"
  "im_Contact incoming1 = ''alice@example.com''"
  "im_InboxID incoming1 = 1"
  by (simp_all add: incoming1_def)

lemma incoming_reply_simps [simp]:
  "SourceID (im_Message incoming_reply) = Some ''<a2@example.com>''"
  "InReplyTo (im_Message incoming_reply) = ''<a1@example.com>''"
  "References (im_Message incoming_reply) = []"
  "im_Contact incoming_reply = ''alice@example.com''"
  by (simp_all add: incoming_reply_def)

lemma deps_upsert_fails_simps [simp]:
  "contactStore_Upsert deps_upsert_fails =
     (\<lambda>contact. Inl (External ''contact store unavailable''))"
  by (simp add: deps_upsert_fails_def)

lemma deps_participant_fails_simps [simp]:
  "db_error deps_participant_fails =
     (\<lambda>op. if op = AddConversationParticipantOp then Some ''connection lost'' else None)"
  "SanitizeAndTruncate deps_participant_fails = (\<lambda>content maxLen. take maxLen content)"
  "now deps_participant_fails = 1000"
  "created_at deps_participant_fails = 1001"
  "new_message_uuid deps_participant_fails = ''m-new''"
  by (simp_all add: deps_participant_fails_def)

lemma new_reply_simps [simp]:
  "Content new_reply = ''thanks''"
  "ConversationUUID new_reply = ''c-1''"
  "Private new_reply = False"
  "Meta new_reply = ''{}''"
  "Media new_reply = []"
  "SenderID new_reply = 3"
  "Type new_reply = ''outgoing''"
  by (simp_all add: new_reply_def reply1_def)

subsection \<open>The status update and the dispatch of one message\<close>

lemma UpdateMessageStatus_frame [simp]:
  "outgoingProcessingMessages (snd (UpdateMessageStatus d m uuid status)) =
     outgoingProcessingMessages m"
  "outgoingMessageQueue (snd (UpdateMessageStatus d m uuid status)) = outgoingMessageQueue m"
  "outgoingQueueCap (snd (UpdateMessageStatus d m uuid status)) = outgoingQueueCap m"
  "sent (snd (UpdateMessageStatus d m uuid status)) = sent m"
  "conversations (snd (UpdateMessageStatus d m uuid status)) = conversations m"
  by (simp_all add: UpdateMessageStatus_def BroadcastMessagePropUpdate_def Let_def
      split: option.splits)

lemma UpdateMessageStatus_messages:
  "messages (snd (UpdateMessageStatus d m uuid status)) =
     (if db_error d UpdateMessageStatusStmt = None
      then update_message_status (messages m) status uuid else messages m)"
  by (simp add: UpdateMessageStatus_def BroadcastMessagePropUpdate_def Let_def
      split: option.splits)

lemma UpdateConversationFirstReplyAt_frame [simp]:
  "outgoingProcessingMessages (UpdateConversationFirstReplyAt d m u i t) =
     outgoingProcessingMessages m"
  "messages (UpdateConversationFirstReplyAt d m u i t) = messages m"
  "sent (UpdateConversationFirstReplyAt d m u i t) = sent m"
  by (simp_all add: UpdateConversationFirstReplyAt_def split: option.splits)

lemma attachAttachmentsToMessage_Inr:
  "attachAttachmentsToMessage d message = Inr message1 \<Longrightarrow>
   \<exists>attachments. message1 = message\<lparr>Attachments := attachments\<rparr>"
  by (auto simp: attachAttachmentsToMessage_def split: sum.splits)

lemma Delete_not_member [simp]: "k \<notin> set (Delete k ks)"
  by (simp add: Delete_def)

lemma set_Store [simp]: "set (Store k ks) = insert k (set ks)"
  by (auto simp: Store_def)


lemma update_message_status_Nil [simp]: "update_message_status [] s u = []"
  by (simp add: update_message_status_def)

lemma update_message_status_Cons [simp]:
  "update_message_status (a # table) s u =
     (if UUID a = u then a\<lparr>Status := s\<rparr> else a) # update_message_status table s u"
  by (simp add: update_message_status_def)

lemma length_update_message_status [simp]:
  "length (update_message_status table s u) = length table"
  by (simp add: update_message_status_def)

lemma update_message_status_member:
  "x \<in> set (update_message_status table s u) \<Longrightarrow> UUID x = u \<Longrightarrow> Status x = s"
proof (induction table)
  case Nil
  then show ?case by simp
next
  case (Cons a table)
  show ?case
  proof (cases "UUID a = u")
    case True
    with Cons.prems have "x = a\<lparr>Status := s\<rparr> \<or> x \<in> set (update_message_status table s u)"
      by simp
    then show ?thesis using Cons.IH Cons.prems(2) by auto
  next
    case False
    with Cons.prems have "x = a \<or> x \<in> set (update_message_status table s u)"
      by simp
    then show ?thesis using Cons.IH Cons.prems(2) False by auto
  qed
qed


lemma dispatch_message_in_flight:
  "ID message \<notin> set (outgoingProcessingMessages (dispatch_message d m message))"
proof (cases "inboxStore_Get d (InboxID message)")
  case (Inl err)
  then show ?thesis by (simp add: dispatch_message_def)
next
  case (Inr inbox)
  show ?thesis
  proof (cases "attachAttachmentsToMessage d message")
    case (Inl err)
    then show ?thesis using Inr by (simp add: dispatch_message_def)
  next
    case att: (Inr message1)
    then obtain attachments where "message1 = message\<lparr>Attachments := attachments\<rparr>"
      using attachAttachmentsToMessage_Inr by blast
    then show ?thesis
      using Inr att by (simp add: dispatch_message_def Let_def address_message_def)
  qed
qed

lemma dispatch_message_failed:
  assumes "dispatch_fails d message" and "db_error d UpdateMessageStatusStmt = None"
  shows "messages (dispatch_message d m message) =
           update_message_status (messages m) MessageStatusFailed (UUID message)"
proof (cases "inboxStore_Get d (InboxID message)")
  case (Inl err)
  then show ?thesis
    using assms by (simp add: dispatch_message_def UpdateMessageStatus_messages)
next
  case (Inr inbox)
  show ?thesis
  proof (cases "attachAttachmentsToMessage d message")
    case (Inl err)
    then show ?thesis
      using Inr assms by (simp add: dispatch_message_def UpdateMessageStatus_messages)
  next
    case att: (Inr message1)
    then obtain attachments where m1: "message1 = message\<lparr>Attachments := attachments\<rparr>"
      using attachAttachmentsToMessage_Inr by blast
    have "Send inbox (address_message d inbox message1) \<noteq> None"
      using assms(1) Inr att by (simp add: dispatch_fails_def)
    then show ?thesis
      using Inr att assms(2) m1
      by (simp add: dispatch_message_def Let_def UpdateMessageStatus_messages
          failed_not_sent address_message_def)
  qed
qed

lemma dispatch_failed_manager_in_flight:
  "messages (dispatch_message deps_send_fails manager_in_flight reply1) =
     [reply1\<lparr>Status := MessageStatusFailed\<rparr>] \<and>
   outgoingProcessingMessages (dispatch_message deps_send_fails manager_in_flight reply1) = []"
  by (simp add: manager_in_flight_def dispatch_message_def attachAttachmentsToMessage_def
      address_message_def UpdateMessageStatus_def BroadcastMessagePropUpdate_def Let_def
      Delete_def failed_not_sent)

subsection \<open>The loop of the scanner\<close>

lemma scan_tick_manager1:
  "ListenAndDispatchMessages_tick deps_ok manager1 = ScanDone manager_dispatching"
  by (simp add: ListenAndDispatchMessages_tick_def getOutgoingProcessingMessageIDs_def GetPendingMessages_def
      manager_dispatching_def scan_pending_messages.simps RenderContentInTemplate_def ChannelEmail_def Store_def
      MessageStatusPending_def MessageOutgoing_def)


text \<open>The three ways in which the loop treats the message at the head of the list.\<close>

lemma scan_pending_skip_inbox:
  "isl (inboxStore_Get d (InboxID message)) \<Longrightarrow>
   scan_pending_messages d m (message # rest) = scan_pending_messages d m rest"
  by (cases "inboxStore_Get d (InboxID message)") simp_all

lemma scan_pending_skip_render:
  assumes "render_fails d message"
  shows "scan_pending_messages d m (message # rest) =
           scan_pending_messages d (snd (UpdateMessageStatus d m (UUID message) MessageStatusFailed)) rest"
proof (cases "inboxStore_Get d (InboxID message)")
  case (Inl err)
  then show ?thesis using assms by (simp add: render_fails_def)
next
  case (Inr inb)
  show ?thesis
  proof (cases "Channel inb = ChannelEmail")
    case True
    then obtain err where "template_RenderDefault d (Content message) = Inl err"
      using assms Inr by (cases "template_RenderDefault d (Content message)")
        (simp_all add: render_fails_def)
    then show ?thesis
      using Inr True by (simp add: RenderContentInTemplate_def)
  next
    case False
    then show ?thesis
      using Inr by (simp add: RenderContentInTemplate_def)
  qed
qed

lemma scan_pending_send:
  assumes "\<not> skipped d message"
  shows "scan_pending_messages d m (message # rest) =
           (if length (outgoingMessageQueue m) < outgoingQueueCap m
            then scan_pending_messages d
                   (m\<lparr>outgoingProcessingMessages := Store (ID message) (outgoingProcessingMessages m),
                      outgoingMessageQueue := outgoingMessageQueue m @ [message]\<rparr>) rest
            else ScanBlocked
                   (m\<lparr>outgoingProcessingMessages := Store (ID message) (outgoingProcessingMessages m)\<rparr>)
                   message rest)"
proof -
  obtain inb where inb: "inboxStore_Get d (InboxID message) = Inr inb"
    using assms by (cases "inboxStore_Get d (InboxID message)") (simp_all add: skipped_def)
  have nf: "\<not> render_fails d message"
    using assms by (simp add: skipped_def)
  then have ch: "Channel inb = ChannelEmail"
    using inb by (simp add: render_fails_def split: if_splits)
  obtain rendered where "template_RenderDefault d (Content message) = Inr rendered"
    using nf inb ch by (cases "template_RenderDefault d (Content message)")
      (simp_all add: render_fails_def)
  then show ?thesis
    using inb ch by (simp add: RenderContentInTemplate_def Let_def)
qed

declare scan_pending_messages.simps(2) [simp del]






subsection \<open>The incoming path\<close>

lemma MessageExistsBySourceID_no_ids [simp]: "MessageExistsBySourceID table [] = None"
  by (induction table) (simp_all split: option.splits)

lemma MessageExistsBySourceID_Some:
  "MessageExistsBySourceID table ids = Some cid \<Longrightarrow>
   \<exists>x\<in>set table. SourceID x \<noteq> None \<and> ConversationID x = cid"
proof (induction table)
  case Nil
  then show ?case by simp
next
  case (Cons a table)
  show ?case
  proof (cases "SourceID a")
    case None
    then have "MessageExistsBySourceID table ids = Some cid"
      using Cons.prems by simp
    then show ?thesis using Cons.IH by auto
  next
    case (Some s)
    show ?thesis
    proof (cases "s \<in> set ids")
      case True
      then have "ConversationID a = cid" using Cons.prems Some by simp
      then show ?thesis using Some by auto
    next
      case False
      then have "MessageExistsBySourceID table ids = Some cid"
        using Cons.prems Some by simp
      then show ?thesis using Cons.IH by auto
    qed
  qed
qed

lemma MessageExistsBySourceID_append_row:
  "MessageExistsBySourceID table [sid] = None \<Longrightarrow> SourceID row = Some sid \<Longrightarrow>
   MessageExistsBySourceID (table @ [row]) [sid] = Some (ConversationID row)"
proof (induction table)
  case Nil
  then show ?case by simp
next
  case (Cons a table)
  show ?case
  proof (cases "SourceID a")
    case None
    then show ?thesis using Cons by simp
  next
    case (Some s)
    then have "s \<noteq> sid" using Cons.prems(1) by (auto split: if_splits)
    then show ?thesis using Cons Some by simp
  qed
qed

lemma findConversationID_cases:
  "findConversationID d m ids =
     (if ids = [] then (0, Some ErrConversationNotFound)
      else case db_error d MessageExistsBySourceIDStmt of
             Some err \<Rightarrow> (0, Some (External err))
           | None \<Rightarrow>
               (case MessageExistsBySourceID (messages m) ids of
                  None \<Rightarrow> (0, Some ErrConversationNotFound)
                | Some conversationID \<Rightarrow> (conversationID, None)))"
  by (simp add: findConversationID_def)

lemma findConversationID_found:
  "db_error d MessageExistsBySourceIDStmt = None \<Longrightarrow>
   MessageExistsBySourceID (messages m) ids = Some cid \<Longrightarrow>
   findConversationID d m ids = (cid, None)"
  by (cases "ids = []") (simp_all add: findConversationID_cases)

lemma findConversationID_not_found:
  "MessageExistsBySourceID (messages m) ids = None \<Longrightarrow>
   db_error d MessageExistsBySourceIDStmt = None \<Longrightarrow>
   findConversationID d m ids = (0, Some ErrConversationNotFound)"
  by (simp add: findConversationID_cases)

lemma findConversationID_result:
  "findConversationID d m ids = (cid, err) \<Longrightarrow>
   (cid = 0 \<and> err \<noteq> None) \<or>
   (err = None \<and> MessageExistsBySourceID (messages m) ids = Some cid \<and>
    db_error d MessageExistsBySourceIDStmt = None)"
  by (auto simp: findConversationID_cases split: if_splits option.splits)

lemma findOrCreateConversation_found:
  assumes "db_error d MessageExistsBySourceIDStmt = None"
    and "MessageExistsBySourceID (messages m) (thread_source_ids inm) = Some cid"
    and "cid \<noteq> 0"
    and "GetConversationUUID d m cid = Inr uuid"
  shows "findOrCreateConversation d m inm inboxID contactID =
           ((False, None, inm\<lparr>ConversationID := cid, ConversationUUID := uuid\<rparr>), m)"
proof -
  have "findConversationID d m (thread_source_ids inm) = (cid, None)"
    using assms(1,2) by (rule findConversationID_found)
  then show ?thesis
    using assms(3,4) by (simp add: findOrCreateConversation_def Let_def)
qed

lemma findOrCreateConversation_new:
  assumes "fst (fst (findOrCreateConversation d m inm inboxID contactID))"
  shows "MessageExistsBySourceID (messages m) (thread_source_ids inm) = None \<or>
         MessageExistsBySourceID (messages m) (thread_source_ids inm) = Some 0"
proof -
  obtain cid err where f: "findConversationID d m (thread_source_ids inm) = (cid, err)"
    by (cases "findConversationID d m (thread_source_ids inm)") auto
  have z: "cid = 0 \<and> (err = None \<or> err = Some ErrConversationNotFound)"
    using assms f
    by (auto simp: findOrCreateConversation_def Let_def split: if_splits sum.splits)
  show ?thesis
  proof (cases "thread_source_ids inm = []")
    case True
    then show ?thesis by simp
  next
    case False
    then show ?thesis
      using f z by (auto simp: findConversationID_cases split: option.splits)
  qed
qed

lemma CreateConversation_result:
  "CreateConversation d m contactID inboxID meta = (newID, newUUID, cerr, m1) \<Longrightarrow>
   messages m1 = messages m \<and>
   ((cerr \<noteq> None \<and> m1 = m) \<or>
    (cerr = None \<and> newID = int (length (conversations m)) + 1 \<and>
     newUUID = new_conversation_uuid d \<and>
     conversations m1 = conversations m @
       [\<lparr>c_ID = newID, c_UUID = newUUID, c_ContactID = contactID, c_InboxID = inboxID,
         c_Subject = meta_subject meta, c_LastMessage = meta_last_message meta,
         c_LastMessageAt = meta_last_message_at meta, c_FirstReplyAt = None\<rparr>]))"
  by (cases "db_error d CreateConversationOp") (auto simp: CreateConversation_def Let_def)

lemma findOrCreateConversation_messages [simp]:
  "messages (snd (findOrCreateConversation d m inm inboxID contactID)) = messages m"
proof -
  obtain newID newUUID cerr m1 where c: "CreateConversation d m contactID inboxID
      \<lparr>meta_subject = Subject inm,
       meta_last_message = SanitizeAndTruncate d (Content inm) maxLastMessageLen,
       meta_last_message_at = now d\<rparr> = (newID, newUUID, cerr, m1)"
    using prod_cases4 by blast
  from CreateConversation_result[OF c] have "messages m1 = messages m" by blast
  then show ?thesis
    using c by (simp add: findOrCreateConversation_def Let_def split: sum.splits)
qed

lemma findOrCreateConversation_ok:
  assumes r: "findOrCreateConversation d m inm inboxID contactID = ((isNew, None, inm1), m1)"
  shows "SourceID inm1 = SourceID inm \<and>
     ((isNew \<and> ConversationID inm1 = int (length (conversations m)) + 1 \<and>
       ConversationUUID inm1 = new_conversation_uuid d \<and>
       conversations m1 = conversations m @
         [\<lparr>c_ID = ConversationID inm1, c_UUID = ConversationUUID inm1,
           c_ContactID = contactID, c_InboxID = inboxID, c_Subject = Subject inm,
           c_LastMessage = SanitizeAndTruncate d (Content inm) maxLastMessageLen,
           c_LastMessageAt = now d, c_FirstReplyAt = None\<rparr>]) \<or>
      (\<not> isNew \<and> m1 = m \<and> ConversationID inm1 \<noteq> 0 \<and>
       MessageExistsBySourceID (messages m) (thread_source_ids inm) =
         Some (ConversationID inm1) \<and>
       GetConversationUUID d m (ConversationID inm1) = Inr (ConversationUUID inm1)))"
proof -
  obtain cid err where f: "findConversationID d m (thread_source_ids inm) = (cid, err)"
    by (cases "findConversationID d m (thread_source_ids inm)") auto
  have e: "err = None \<or> err = Some ErrConversationNotFound"
    using r f by (auto simp: findOrCreateConversation_def Let_def split: if_splits)
  show ?thesis
  proof (cases "cid = 0")
    case True
    obtain newID newUUID cerr mc where c: "CreateConversation d m contactID inboxID
      \<lparr>meta_subject = Subject inm,
       meta_last_message = SanitizeAndTruncate d (Content inm) maxLastMessageLen,
       meta_last_message_at = now d\<rparr> = (newID, newUUID, cerr, mc)"
      using prod_cases4 by blast
    have ok: "cerr = None \<and> newID \<noteq> 0"
      using r f e True c CreateConversation_result[OF c]
      by (auto simp: findOrCreateConversation_def Let_def split: if_splits)
    then have res: "isNew \<and> m1 = mc \<and>
        inm1 = inm\<lparr>ConversationID := newID, ConversationUUID := newUUID\<rparr>"
      using r f e True c
      by (auto simp: findOrCreateConversation_def Let_def split: if_splits)
    from CreateConversation_result[OF c] ok
    have "newID = int (length (conversations m)) + 1 \<and> newUUID = new_conversation_uuid d \<and>
      conversations mc = conversations m @
       [\<lparr>c_ID = newID, c_UUID = newUUID, c_ContactID = contactID, c_InboxID = inboxID,
         c_Subject = Subject inm,
         c_LastMessage = SanitizeAndTruncate d (Content inm) maxLastMessageLen,
         c_LastMessageAt = now d, c_FirstReplyAt = None\<rparr>]"
      by auto
    then show ?thesis using res by simp
  next
    case False
    then have en: "err = None" and mx: "MessageExistsBySourceID (messages m) (thread_source_ids inm) = Some cid"
      using findConversationID_result[OF f] by auto
    obtain uuid where u: "GetConversationUUID d m cid = Inr uuid"
      using r f False en
      by (cases "GetConversationUUID d m cid")
        (auto simp: findOrCreateConversation_def Let_def)
    have "\<not> isNew \<and> m1 = m \<and> inm1 = inm\<lparr>ConversationID := cid, ConversationUUID := uuid\<rparr>"
      using r f False en u by (auto simp: findOrCreateConversation_def Let_def)
    then show ?thesis using False mx u by simp
  qed
qed

lemma uploadMessageAttachments_frame [simp]:
  "messages (uploadMessageAttachments d m messageID attachments) = messages m"
  "conversations (uploadMessageAttachments d m messageID attachments) = conversations m"
  by (induction attachments arbitrary: m) (simp_all add: Let_def)

lemma conversations_frames [simp]:
  "conversations (snd (AddConversationParticipant d m u c)) = conversations m"
  "conversations (BroadcastNewConversationMessage m a b c2 t e f) = conversations m"
  by (simp_all add: AddConversationParticipant_def BroadcastNewConversationMessage_def
      split: option.splits)

lemma InsertMessage_ok_iff:
  "fst (fst (InsertMessage d m message)) = None \<longleftrightarrow>
     db_error d InsertMessageStmt = None \<and> db_error d AddConversationParticipantOp = None"
  by (cases "db_error d InsertMessageStmt"; cases "db_error d AddConversationParticipantOp")
    (simp_all add: InsertMessage_def Let_def AddConversationParticipant_def)

lemma InsertMessage_conversations:
  "conversations (snd (InsertMessage d m message)) =
     (if db_error d InsertMessageStmt = None \<and> db_error d AddConversationParticipantOp = None \<and>
         db_error d UpdateConversationLastMessageOp = None
      then map (\<lambda>c. if c_UUID c = ConversationUUID message
                     then c\<lparr>c_LastMessage := SanitizeAndTruncate d (Content message) 45,
                            c_LastMessageAt := created_at d\<rparr>
                     else c) (conversations m)
      else conversations m)"
  by (cases "db_error d InsertMessageStmt"; cases "db_error d AddConversationParticipantOp";
      cases "db_error d UpdateConversationLastMessageOp")
    (simp_all add: InsertMessage_def Let_def AddConversationParticipant_def
      UpdateConversationLastMessage_def insert_message_row_def)

lemma InsertMessage_conversation_ids:
  "map c_ID (conversations (snd (InsertMessage d m message))) = map c_ID (conversations m)"
  by (simp add: InsertMessage_conversations)

lemma summary_after_update:
  "c \<in> set (map (\<lambda>c. if c_UUID c = u then c\<lparr>c_LastMessage := s, c_LastMessageAt := t\<rparr> else c) cs) \<Longrightarrow>
   c_UUID c = u \<Longrightarrow> c_LastMessage c = s \<and> c_LastMessageAt c = t"
proof (induction cs)
  case Nil
  then show ?case by simp
next
  case (Cons a cs)
  show ?case
  proof (cases "c_UUID a = u")
    case True
    with Cons.prems have "c = a\<lparr>c_LastMessage := s, c_LastMessageAt := t\<rparr> \<or>
        c \<in> set (map (\<lambda>c. if c_UUID c = u then c\<lparr>c_LastMessage := s, c_LastMessageAt := t\<rparr> else c) cs)"
      by simp
    then show ?thesis using Cons.IH Cons.prems(2) by auto
  next
    case False
    with Cons.prems have "c = a \<or>
        c \<in> set (map (\<lambda>c. if c_UUID c = u then c\<lparr>c_LastMessage := s, c_LastMessageAt := t\<rparr> else c) cs)"
      by simp
    then show ?thesis using Cons.IH Cons.prems(2) False by auto
  qed
qed

lemma processIncomingMessage_duplicate:
  assumes "MessageExistsBySourceID (messages m) [null_String (SourceID (im_Message inc))] = Some cid"
    and "0 < cid"
  shows "snd (processIncomingMessage d m inc) = m"
    and "contactStore_Upsert d (im_Contact inc) = Inr senderID \<Longrightarrow>
         db_error d MessageExistsBySourceIDStmt = None \<Longrightarrow>
         processIncomingMessage d m inc = (None, m)"
proof -
  show "snd (processIncomingMessage d m inc) = m"
  proof (cases "contactStore_Upsert d (im_Contact inc)")
    case (Inl err)
    then show ?thesis by (simp add: processIncomingMessage_def)
  next
    case (Inr sid)
    show ?thesis
    proof (cases "db_error d MessageExistsBySourceIDStmt")
      case None
      then have "findConversationID d m [null_String (SourceID (im_Message inc))] = (cid, None)"
        using assms(1) by (rule findConversationID_found)
      then show ?thesis
        using Inr assms(2) by (simp add: processIncomingMessage_def Let_def)
    next
      case (Some e)
      then have "findConversationID d m [null_String (SourceID (im_Message inc))] =
          (0, Some (External e))"
        by (simp add: findConversationID_cases)
      then show ?thesis
        using Inr by (simp add: processIncomingMessage_def Let_def)
    qed
  qed
next
  assume u: "contactStore_Upsert d (im_Contact inc) = Inr senderID"
    and ok: "db_error d MessageExistsBySourceIDStmt = None"
  have "findConversationID d m [null_String (SourceID (im_Message inc))] = (cid, None)"
    using ok assms(1) by (rule findConversationID_found)
  then show "processIncomingMessage d m inc = (None, m)"
    using u assms(2) by (simp add: processIncomingMessage_def Let_def)
qed

lemma processIncomingMessage_processed:
  assumes r: "processIncomingMessage d m inc = (None, m1)"
    and nd: "MessageExistsBySourceID (messages m) [null_String (SourceID (im_Message inc))] = None"
  shows "\<exists>sid isNew message1 mA.
      contactStore_Upsert d (im_Contact inc) = Inr sid \<and>
      findOrCreateConversation d m ((im_Message inc)\<lparr>SenderID := sid\<rparr>) (im_InboxID inc) sid =
        ((isNew, None, message1), mA) \<and>
      fst (fst (InsertMessage d mA message1)) = None \<and>
      messages m1 = messages (snd (InsertMessage d mA message1)) \<and>
      conversations m1 = conversations (snd (InsertMessage d mA message1))"
proof -
  obtain sid where u: "contactStore_Upsert d (im_Contact inc) = Inr sid"
    using r by (cases "contactStore_Upsert d (im_Contact inc)")
      (simp_all add: processIncomingMessage_def)
  let ?msg = "(im_Message inc)\<lparr>SenderID := sid\<rparr>"
  have own: "findConversationID d m [null_String (SourceID ?msg)] =
      (0, Some ErrConversationNotFound)"
  proof (cases "db_error d MessageExistsBySourceIDStmt")
    case None
    then show ?thesis using nd by (simp add: findConversationID_cases)
  next
    case (Some e)
    then have "findConversationID d m [null_String (SourceID ?msg)] = (0, Some (External e))"
      by (simp add: findConversationID_cases)
    then have "fst (processIncomingMessage d m inc) = Some (External e)"
      using u by (simp add: processIncomingMessage_def Let_def)
    then show ?thesis using r by simp
  qed
  obtain isNew ferr message1 mA where
    f: "findOrCreateConversation d m ?msg (im_InboxID inc) sid = ((isNew, ferr, message1), mA)"
    by (metis prod.collapse)
  have step1: "processIncomingMessage d m inc =
      (case ferr of
         Some e \<Rightarrow> (Some e, mA)
       | None \<Rightarrow>
           (case InsertMessage d mA message1 of
              ((Some ierr, message2), m2) \<Rightarrow> (Some ierr, m2)
            | ((None, message2), m2) \<Rightarrow>
                (let m3 = uploadMessageAttachments d m2 (ID message2) (Attachments message2)
                 in if isNew
                    then (None, m3\<lparr>automation :=
                            EvaluateNewConversationRules (automation m3)
                              (ConversationUUID message2)\<rparr>)
                    else (None, m3))))"
    using u own f by (simp add: processIncomingMessage_def Let_def)
  have fe: "ferr = None"
    using r step1 by (cases ferr) simp_all
  obtain ierr message2 m2 where i: "InsertMessage d mA message1 = ((ierr, message2), m2)"
    by (metis prod.collapse)
  have ie: "ierr = None"
    using r step1 fe i by (cases ierr) simp_all
  have "messages m1 = messages m2 \<and> conversations m1 = conversations m2"
    using r step1 fe i ie by (auto simp: Let_def split: if_splits)
  then show ?thesis
    using u f fe i ie by simp
qed

lemma null_String_Some [simp]: "null_String (Some s) = s"
  by (simp add: null_String_def)

lemma processIncomingMessage_after_lookup:
  assumes u: "contactStore_Upsert d (im_Contact inc) = Inr sid"
    and ok: "db_error d MessageExistsBySourceIDStmt = None"
    and nd: "MessageExistsBySourceID (messages m) [null_String (SourceID (im_Message inc))] = None"
    and f: "findOrCreateConversation d m ((im_Message inc)\<lparr>SenderID := sid\<rparr>) (im_InboxID inc) sid =
              ((isNew, None, message1), mA)"
  shows "messages (snd (processIncomingMessage d m inc)) =
           messages (snd (InsertMessage d mA message1)) \<and>
         conversations (snd (processIncomingMessage d m inc)) =
           conversations (snd (InsertMessage d mA message1))"
proof -
  let ?msg = "(im_Message inc)\<lparr>SenderID := sid\<rparr>"
  have own: "findConversationID d m [null_String (SourceID ?msg)] =
      (0, Some ErrConversationNotFound)"
    using ok nd by (simp add: findConversationID_cases)
  obtain ierr message2 m2 where i: "InsertMessage d mA message1 = ((ierr, message2), m2)"
    by (metis prod.collapse)
  show ?thesis
    using u own f i
    by (cases ierr) (simp_all add: processIncomingMessage_def Let_def)
qed

lemma thread_source_ids_SenderID [simp]:
  "thread_source_ids (inm\<lparr>SenderID := s\<rparr>) = thread_source_ids inm"
  by (simp add: thread_source_ids_def)

lemma conversations_dispatch_summary:
  "map (\<lambda>c. (c_UUID c, c_LastMessage c, c_LastMessageAt c)) (conversations (dispatch_message d m message)) =
   map (\<lambda>c. (c_UUID c, c_LastMessage c, c_LastMessageAt c)) (conversations m)"
proof -
  have fr: "map (\<lambda>c. (c_UUID c, c_LastMessage c, c_LastMessageAt c))
        (conversations (UpdateConversationFirstReplyAt d m0 u i t)) =
      map (\<lambda>c. (c_UUID c, c_LastMessage c, c_LastMessageAt c)) (conversations m0)" for m0 u i t
    by (cases "db_error d UpdateConversationFirstReplyAtOp")
      (simp_all add: UpdateConversationFirstReplyAt_def)
  show ?thesis
  proof (cases "inboxStore_Get d (InboxID message)")
    case (Inl err)
    then show ?thesis by (simp add: dispatch_message_def)
  next
    case (Inr inbox)
    show ?thesis
    proof (cases "attachAttachmentsToMessage d message")
      case (Inl err)
      then show ?thesis using Inr by (simp add: dispatch_message_def)
    next
      case att: (Inr message1)
      show ?thesis
        using Inr att fr by (simp add: dispatch_message_def Let_def)
    qed
  qed
qed

lemma InsertMessage_new_reply:
  "fst (fst (InsertMessage deps_ok manager1 new_reply)) = None \<and>
   conversations (snd (InsertMessage deps_ok manager1 new_reply)) =
     [conversation1\<lparr>c_LastMessage := ''thanks'', c_LastMessageAt := 1001\<rparr>]"
  by (simp add: InsertMessage_ok_iff InsertMessage_conversations)

lemma findOrCreateConversation_incoming1:
  "findOrCreateConversation deps_ok manager1 (im_Message incoming1) 1 7 =
     ((True, None, (im_Message incoming1)\<lparr>ConversationID := 2, ConversationUUID := ''c-new''\<rparr>),
      manager1\<lparr>conversations :=
        [conversation1,
         \<lparr>c_ID = 2, c_UUID = ''c-new'', c_ContactID = 7, c_InboxID = 1, c_Subject = ''Help'',
          c_LastMessage = ''I need help'', c_LastMessageAt = 1000, c_FirstReplyAt = None\<rparr>]\<rparr>)"
  by (simp add: findOrCreateConversation_def thread_source_ids_def findConversationID_def
      CreateConversation_def Let_def maxLastMessageLen_def incoming1_def)

lemma lookups_manager_seen:
  "MessageExistsBySourceID (messages manager_seen) [''<a1@example.com>''] = Some 1"
  "MessageExistsBySourceID (messages manager_seen) [''<a2@example.com>''] = None"
  "GetConversationUUID deps_ok manager_seen 1 = Inr ''c-1''"
  by (simp_all add: GetConversationUUID_def)

lemma process_incoming1_manager1:
  "fst (processIncomingMessage deps_ok manager1 incoming1) = None"
proof -
  have own: "findConversationID deps_ok manager1 [''<a1@example.com>''] =
      (0, Some ErrConversationNotFound)"
    by (simp add: findConversationID_def)
  have f: "findOrCreateConversation deps_ok manager1 ((im_Message incoming1)\<lparr>SenderID := 7\<rparr>) 1 7 =
     ((True, None, (im_Message incoming1)\<lparr>SenderID := 7, ConversationID := 2,
                                             ConversationUUID := ''c-new''\<rparr>),
      manager1\<lparr>conversations :=
        [conversation1,
         \<lparr>c_ID = 2, c_UUID = ''c-new'', c_ContactID = 7, c_InboxID = 1, c_Subject = ''Help'',
          c_LastMessage = ''I need help'', c_LastMessageAt = 1000, c_FirstReplyAt = None\<rparr>]\<rparr>)"
    by (simp add: findOrCreateConversation_def thread_source_ids_def findConversationID_def
        CreateConversation_def Let_def maxLastMessageLen_def incoming1_def)
  obtain ierr message2 m2 where i: "InsertMessage deps_ok
      (manager1\<lparr>conversations :=
        [conversation1,
         \<lparr>c_ID = 2, c_UUID = ''c-new'', c_ContactID = 7, c_InboxID = 1, c_Subject = ''Help'',
          c_LastMessage = ''I need help'', c_LastMessageAt = 1000, c_FirstReplyAt = None\<rparr>]\<rparr>)
      ((im_Message incoming1)\<lparr>SenderID := 7, ConversationID := 2,
                                             ConversationUUID := ''c-new''\<rparr>) =
      ((ierr, message2), m2)"
    by (metis prod.collapse)
  have "ierr = None"
    using InsertMessage_ok_iff[of deps_ok] i by (metis deps_ok_simps(1) fst_conv)
  then show ?thesis
    using own f i by (simp add: processIncomingMessage_def Let_def)
qed

subsection \<open>What reaches the channel's send\<close>

text \<open>
  The scanner enqueues pending messages as it read them, and a worker hands to
  \<^verbatim>\<open>Send\<close> a message with the content of the message it received.
\<close>

lemma dispatch_message_sends_stored_content:
  "map Content (sent (dispatch_message d m message)) = map Content (sent m) \<or>
   map Content (sent (dispatch_message d m message)) = map Content (sent m) @ [Content message]"
proof (cases "inboxStore_Get d (InboxID message)")
  case (Inl err)
  then show ?thesis by (simp add: dispatch_message_def)
next
  case (Inr inbox)
  show ?thesis
  proof (cases "attachAttachmentsToMessage d message")
    case (Inl err)
    then show ?thesis using Inr by (simp add: dispatch_message_def)
  next
    case att: (Inr message1)
    then obtain attachments where "message1 = message\<lparr>Attachments := attachments\<rparr>"
      using attachAttachmentsToMessage_Inr by blast
    then show ?thesis
      using Inr att by (simp add: dispatch_message_def Let_def address_message_def)
  qed
qed

lemma scan_pending_messages_enqueues_unchanged:
  "set (outgoingMessageQueue (outcome_state (scan_pending_messages d m pend)))
     \<subseteq> set (outgoingMessageQueue m) \<union> set pend"
proof (induction pend arbitrary: m)
  case Nil
  then show ?case by simp
next
  case (Cons a pend)
  show ?case
  proof (cases "skipped d a")
    case False
    have "set (outgoingMessageQueue (outcome_state (scan_pending_messages d
             (m\<lparr>outgoingProcessingMessages := Store (ID a) (outgoingProcessingMessages m),
                outgoingMessageQueue := outgoingMessageQueue m @ [a]\<rparr>) pend)))
          \<subseteq> set (outgoingMessageQueue m @ [a]) \<union> set pend"
      using Cons.IH[of "m\<lparr>outgoingProcessingMessages := Store (ID a) (outgoingProcessingMessages m),
                outgoingMessageQueue := outgoingMessageQueue m @ [a]\<rparr>"] by simp
    then show ?thesis
      using False by (auto simp: scan_pending_send)
  next
    case True
    show ?thesis
    proof (cases "isl (inboxStore_Get d (InboxID a))")
      case True
      then show ?thesis using Cons.IH[of m] by (auto simp: scan_pending_skip_inbox)
    next
      case False
      then have rf: "render_fails d a" using True by (simp add: skipped_def)
      show ?thesis
        using rf Cons.IH[of "snd (UpdateMessageStatus d m (UUID a) MessageStatusFailed)"]
        by (auto simp: scan_pending_skip_render)
    qed
  qed
qed

section \<open>The claims\<close>

text \<open>
  Claim C1, on the code. \<^verbatim>\<open>RenderContentInTemplate\<close> renders into its own copy of the
  message; the scanner enqueues its loop variable, and the worker hands that to \<^verbatim>\<open>Send\<close>.
  Here the template renders the stored body \<open>hello\<close> as \<open><html>hello</html>\<close>, the tick
  enqueues the pending reply, and the content of the message that the worker passes to
  \<^verbatim>\<open>Send\<close> is the stored body \<open>hello\<close>, not the rendered one.
\<close>

theorem C1_unrendered_content_is_sent:
  "ListenAndDispatchMessages_tick deps_ok manager1 = ScanDone manager_dispatching \<and>
   outgoingMessageQueue manager_dispatching = [reply1] \<and>
   template_RenderDefault deps_ok (Content reply1) = Inr ''<html>hello</html>'' \<and>
   map Content (sent (MessageDispatchWorker deps_ok manager_dispatching)) = [''hello'']"
  by (simp add: scan_tick_manager1 manager_dispatching_def MessageDispatchWorker_def
      dispatch_message_def attachAttachmentsToMessage_def address_message_def
      UpdateMessageStatus_def UpdateConversationFirstReplyAt_def
      BroadcastMessagePropUpdate_def Let_def)

text \<open>
  Claim C2, as amended. When a stored message already carries the source id of an incoming
  message (the lookup finds a positive conversation id), \<^verbatim>\<open>processIncomingMessage\<close>
  changes nothing: no message is inserted and no conversation created; it returns nil
  provided that the upsert of the contact, which comes first, and the lookup succeed.
  For a message that has a source id, on a storage whose messages with a source id belong
  to a conversation of positive id: after one processing that returned nil, processing the
  same message again changes nothing, whatever the environment, and returns nil under the
  same proviso; the first processing stored at most one message and at most one
  conversation, and exactly one message when no stored message had the source id before.
\<close>

theorem C2_duplicate_is_discarded:
  "(MessageExistsBySourceID (messages m) [null_String (SourceID (im_Message inc))] = Some cid \<and>
    0 < cid \<longrightarrow>
      snd (processIncomingMessage d m inc) = m \<and>
      (contactStore_Upsert d (im_Contact inc) = Inr senderID \<and>
       db_error d MessageExistsBySourceIDStmt = None \<longrightarrow>
         processIncomingMessage d m inc = (None, m))) \<and>
   ((\<forall>x\<in>set (messages m). SourceID x \<noteq> None \<longrightarrow> 0 < ConversationID x) \<and>
    SourceID (im_Message inc) = Some sid \<and>
    processIncomingMessage d m inc = (None, m1) \<longrightarrow>
      snd (processIncomingMessage d2 m1 inc) = m1 \<and>
      (contactStore_Upsert d2 (im_Contact inc) = Inr senderID2 \<and>
       db_error d2 MessageExistsBySourceIDStmt = None \<longrightarrow>
         processIncomingMessage d2 m1 inc = (None, m1)) \<and>
      length (messages m1) \<le> length (messages m) + 1 \<and>
      length (conversations m1) \<le> length (conversations m) + 1 \<and>
      (MessageExistsBySourceID (messages m) [sid] = None \<longrightarrow>
         length (messages m1) = length (messages m) + 1))"
proof (intro conjI impI)
  assume h: "MessageExistsBySourceID (messages m) [null_String (SourceID (im_Message inc))] = Some cid \<and>
    0 < cid"
  then show "snd (processIncomingMessage d m inc) = m"
    using processIncomingMessage_duplicate(1) by blast
  assume "contactStore_Upsert d (im_Contact inc) = Inr senderID \<and>
       db_error d MessageExistsBySourceIDStmt = None"
  then show "processIncomingMessage d m inc = (None, m)"
    using h processIncomingMessage_duplicate(2) by blast
next
  assume h: "(\<forall>x\<in>set (messages m). SourceID x \<noteq> None \<longrightarrow> 0 < ConversationID x) \<and>
    SourceID (im_Message inc) = Some sid \<and>
    processIncomingMessage d m inc = (None, m1)"
  then have wf: "\<forall>x\<in>set (messages m). SourceID x \<noteq> None \<longrightarrow> 0 < ConversationID x"
    and sid: "SourceID (im_Message inc) = Some sid"
    and r: "processIncomingMessage d m inc = (None, m1)"
    by blast+
  have pos: "0 < c" if "MessageExistsBySourceID (messages m) ids = Some c" for ids c
    using MessageExistsBySourceID_Some[OF that] wf by blast
  have main: "(\<exists>c. MessageExistsBySourceID (messages m1) [sid] = Some c \<and> 0 < c) \<and>
      length (messages m1) \<le> length (messages m) + 1 \<and>
      length (conversations m1) \<le> length (conversations m) + 1 \<and>
      (MessageExistsBySourceID (messages m) [sid] = None \<longrightarrow>
         length (messages m1) = length (messages m) + 1)"
  proof (cases "MessageExistsBySourceID (messages m) [sid]")
    case (Some c)
    then have c: "0 < c" using pos by blast
    have "snd (processIncomingMessage d m inc) = m"
      using processIncomingMessage_duplicate(1)[of m inc c d] Some c sid by simp
    then have "m1 = m" using r by simp
    then show ?thesis using Some c by simp
  next
    case None
    then have nd: "MessageExistsBySourceID (messages m) [null_String (SourceID (im_Message inc))] = None"
      using sid by simp
    from processIncomingMessage_processed[OF r nd] obtain s isNew message1 mA where
      f: "findOrCreateConversation d m ((im_Message inc)\<lparr>SenderID := s\<rparr>) (im_InboxID inc) s =
            ((isNew, None, message1), mA)"
      and iok: "fst (fst (InsertMessage d mA message1)) = None"
      and ms: "messages m1 = messages (snd (InsertMessage d mA message1))"
      and cs: "conversations m1 = conversations (snd (InsertMessage d mA message1))"
      by blast
    have mA: "messages mA = messages m"
      using findOrCreateConversation_messages[of d m "(im_Message inc)\<lparr>SenderID := s\<rparr>"
          "im_InboxID inc" s] f by simp
    from findOrCreateConversation_ok[OF f]
    have src: "SourceID message1 = Some sid"
      and cpos: "0 < ConversationID message1"
      and clen: "length (conversations mA) \<le> length (conversations m) + 1"
      using sid pos by (auto simp: thread_source_ids_def)
    have "db_error d InsertMessageStmt = None"
      using iok InsertMessage_ok_iff by blast
    from InsertMessage_inserted[OF this, of mA message1] obtain row where
      row: "messages (snd (InsertMessage d mA message1)) = messages mA @ [row]"
        "SourceID row = SourceID message1" "ConversationID row = ConversationID message1"
      by blast
    have "MessageExistsBySourceID (messages m1) [sid] = Some (ConversationID row)"
      using MessageExistsBySourceID_append_row[OF None, of row] row src ms mA by simp
    moreover have "length (conversations m1) = length (conversations mA)"
      using cs InsertMessage_conversation_ids[of d mA message1] by (metis length_map)
    ultimately show ?thesis
      using row cpos clen ms mA by simp
  qed
  then obtain c where c: "MessageExistsBySourceID (messages m1) [null_String (SourceID (im_Message inc))] = Some c"
      "0 < c"
    using sid by auto
  show "snd (processIncomingMessage d2 m1 inc) = m1"
    using processIncomingMessage_duplicate(1)[OF c] .
  show "length (messages m1) \<le> length (messages m) + 1"
    and "length (conversations m1) \<le> length (conversations m) + 1"
    using main by blast+
  {
    assume "MessageExistsBySourceID (messages m) [sid] = None"
    then show "length (messages m1) = length (messages m) + 1"
      using main by blast
  }
  assume "contactStore_Upsert d2 (im_Contact inc) = Inr senderID2 \<and>
       db_error d2 MessageExistsBySourceIDStmt = None"
  then show "processIncomingMessage d2 m1 inc = (None, m1)"
    using processIncomingMessage_duplicate(2)[OF c] by blast
qed

text \<open>
  At a storage that holds the message already, the duplicate is discarded with nil; and
  at a storage that does not, the first processing stores one message and the second
  changes nothing.
\<close>

theorem C2_duplicate_is_discarded_witness:
  "MessageExistsBySourceID (messages manager_seen)
     [null_String (SourceID (im_Message incoming1))] = Some 1 \<and>
   processIncomingMessage deps_ok manager_seen incoming1 = (None, manager_seen) \<and>
   SourceID (im_Message incoming1) = Some ''<a1@example.com>'' \<and>
   fst (processIncomingMessage deps_ok manager1 incoming1) = None \<and>
   processIncomingMessage deps_ok (snd (processIncomingMessage deps_ok manager1 incoming1)) incoming1 =
     (None, snd (processIncomingMessage deps_ok manager1 incoming1)) \<and>
   length (messages (snd (processIncomingMessage deps_ok manager1 incoming1))) = 2"
proof -
  let ?m1 = "snd (processIncomingMessage deps_ok manager1 incoming1)"
  have dup: "MessageExistsBySourceID (messages manager_seen)
     [null_String (SourceID (im_Message incoming1))] = Some 1"
    using lookups_manager_seen(1) by simp
  have pos: "(0::int) < 1" by simp
  have u: "contactStore_Upsert deps_ok (im_Contact incoming1) = Inr 7"
    and db: "db_error deps_ok MessageExistsBySourceIDStmt = None"
    by simp_all
  note A = C2_duplicate_is_discarded
      [where d = deps_ok and m = manager_seen and inc = incoming1 and cid = 1 and senderID = 7]
  from A dup pos u db
  have first: "processIncomingMessage deps_ok manager_seen incoming1 = (None, manager_seen)"
    by blast
  have wf: "\<forall>x\<in>set (messages manager1). SourceID x \<noteq> None \<longrightarrow> 0 < ConversationID x"
    by simp
  have sid: "SourceID (im_Message incoming1) = Some ''<a1@example.com>''"
    by simp
  have r: "processIncomingMessage deps_ok manager1 incoming1 = (None, ?m1)"
    using process_incoming1_manager1 by (metis prod.collapse)
  have new: "MessageExistsBySourceID (messages manager1) [''<a1@example.com>''] = None"
    by simp
  note B = C2_duplicate_is_discarded
      [where d = deps_ok and m = manager1 and inc = incoming1 and sid = "''<a1@example.com>''"
         and ?m1.0 = ?m1 and ?d2.0 = deps_ok and ?senderID2.0 = 7]
  from B wf sid r u db new
  have "processIncomingMessage deps_ok ?m1 incoming1 = (None, ?m1) \<and>
      length (messages ?m1) = length (messages manager1) + 1"
    by blast
  then show ?thesis
    using dup first sid process_incoming1_manager1 by simp
qed

text \<open>
  Claim C2 as stated fails: a conversation matches the source id of the message, the
  upsert of the contact fails, and \<^verbatim>\<open>processIncomingMessage\<close> returns that error, not nil.
\<close>

theorem C2_upsert_failure_is_returned:
  "MessageExistsBySourceID (messages manager_seen)
     [null_String (SourceID (im_Message incoming1))] = Some 1 \<and>
   processIncomingMessage deps_upsert_fails manager_seen incoming1 =
     (Some (External ''contact store unavailable''), manager_seen)"
  by (simp add: processIncomingMessage_def)

text \<open>
  Claim C3, as amended. The ids that \<^verbatim>\<open>findOrCreateConversation\<close> looks a conversation
  up by are the references of the message and its in-reply-to id, not its own source id.
  When the lookup finds a conversation id other than 0 and the UUID of that conversation
  is found, the message gets that id and UUID and nothing is created. A conversation is
  new only when the lookup found none (or the id 0), and the conversations change only
  when the conversation is new. For \<^verbatim>\<open>processIncomingMessage\<close>: when the upsert, the
  lookups and the insert succeed, the message's own source id matches no stored message
  and its references or in-reply-to id match, the message is stored under the found
  conversation id and UUID, and no conversation is created.
\<close>

theorem C3_reply_attaches_to_found_conversation:
  "(db_error d MessageExistsBySourceIDStmt = None \<and>
    MessageExistsBySourceID (messages m) (thread_source_ids inm) = Some cid \<and> cid \<noteq> 0 \<and>
    GetConversationUUID d m cid = Inr uuid \<longrightarrow>
      findOrCreateConversation d m inm inboxID contactID =
        ((False, None, inm\<lparr>ConversationID := cid, ConversationUUID := uuid\<rparr>), m)) \<and>
   (fst (fst (findOrCreateConversation d m inm inboxID contactID)) \<longrightarrow>
      MessageExistsBySourceID (messages m) (thread_source_ids inm) = None \<or>
      MessageExistsBySourceID (messages m) (thread_source_ids inm) = Some 0) \<and>
   (conversations (snd (findOrCreateConversation d m inm inboxID contactID)) \<noteq> conversations m \<longrightarrow>
      fst (fst (findOrCreateConversation d m inm inboxID contactID))) \<and>
   (contactStore_Upsert d (im_Contact inc) = Inr senderID \<and>
    db_error d MessageExistsBySourceIDStmt = None \<and> db_error d InsertMessageStmt = None \<and>
    MessageExistsBySourceID (messages m) [null_String (SourceID (im_Message inc))] = None \<and>
    MessageExistsBySourceID (messages m) (thread_source_ids (im_Message inc)) = Some cid \<and>
    cid \<noteq> 0 \<and> GetConversationUUID d m cid = Inr uuid \<longrightarrow>
      map c_ID (conversations (snd (processIncomingMessage d m inc))) =
        map c_ID (conversations m) \<and>
      (\<exists>row. messages (snd (processIncomingMessage d m inc)) = messages m @ [row] \<and>
             ConversationID row = cid \<and> ConversationUUID row = uuid \<and>
             SourceID row = SourceID (im_Message inc)))"
proof (intro conjI impI)
  assume "db_error d MessageExistsBySourceIDStmt = None \<and>
    MessageExistsBySourceID (messages m) (thread_source_ids inm) = Some cid \<and> cid \<noteq> 0 \<and>
    GetConversationUUID d m cid = Inr uuid"
  then show "findOrCreateConversation d m inm inboxID contactID =
        ((False, None, inm\<lparr>ConversationID := cid, ConversationUUID := uuid\<rparr>), m)"
    using findOrCreateConversation_found by blast
next
  assume "fst (fst (findOrCreateConversation d m inm inboxID contactID))"
  then show "MessageExistsBySourceID (messages m) (thread_source_ids inm) = None \<or>
      MessageExistsBySourceID (messages m) (thread_source_ids inm) = Some 0"
    by (rule findOrCreateConversation_new)
next
  assume ch: "conversations (snd (findOrCreateConversation d m inm inboxID contactID)) \<noteq> conversations m"
  obtain isNew ferr inm1 m1 where
    f: "findOrCreateConversation d m inm inboxID contactID = ((isNew, ferr, inm1), m1)"
    by (metis prod.collapse)
  show "fst (fst (findOrCreateConversation d m inm inboxID contactID))"
  proof (rule ccontr)
    assume "\<not> fst (fst (findOrCreateConversation d m inm inboxID contactID))"
    then have "snd (findOrCreateConversation d m inm inboxID contactID) = m"
      by (auto simp: findOrCreateConversation_def Let_def split: if_splits sum.splits prod.splits)
    then show False using ch by simp
  qed
next
  assume h: "contactStore_Upsert d (im_Contact inc) = Inr senderID \<and>
    db_error d MessageExistsBySourceIDStmt = None \<and> db_error d InsertMessageStmt = None \<and>
    MessageExistsBySourceID (messages m) [null_String (SourceID (im_Message inc))] = None \<and>
    MessageExistsBySourceID (messages m) (thread_source_ids (im_Message inc)) = Some cid \<and>
    cid \<noteq> 0 \<and> GetConversationUUID d m cid = Inr uuid"
  let ?msg = "(im_Message inc)\<lparr>SenderID := senderID\<rparr>"
  let ?msg1 = "?msg\<lparr>ConversationID := cid, ConversationUUID := uuid\<rparr>"
  have f: "findOrCreateConversation d m ?msg (im_InboxID inc) senderID =
      ((False, None, ?msg1), m)"
    using h findOrCreateConversation_found[of d m ?msg cid uuid] by simp
  have u: "contactStore_Upsert d (im_Contact inc) = Inr senderID"
    and ok: "db_error d MessageExistsBySourceIDStmt = None"
    and nd: "MessageExistsBySourceID (messages m) [null_String (SourceID (im_Message inc))] = None"
    using h by simp_all
  from processIncomingMessage_after_lookup[OF u ok nd f]
  have eq: "messages (snd (processIncomingMessage d m inc)) =
           messages (snd (InsertMessage d m ?msg1)) \<and>
         conversations (snd (processIncomingMessage d m inc)) =
           conversations (snd (InsertMessage d m ?msg1))" .
  then show "map c_ID (conversations (snd (processIncomingMessage d m inc))) =
        map c_ID (conversations m)"
    using InsertMessage_conversation_ids[of d m ?msg1] by simp
  have ins: "db_error d InsertMessageStmt = None" using h by blast
  from InsertMessage_inserted[OF ins, of m ?msg1] obtain row where
    row: "messages (snd (InsertMessage d m ?msg1)) = messages m @ [row]"
      "SourceID row = SourceID ?msg1" "ConversationID row = ConversationID ?msg1"
      "ConversationUUID row = ConversationUUID ?msg1"
    by blast
  have "messages (snd (processIncomingMessage d m inc)) = messages m @ [row] \<and>
             ConversationID row = cid \<and> ConversationUUID row = uuid \<and>
             SourceID row = SourceID (im_Message inc)"
    using eq row by simp
  then show "\<exists>row. messages (snd (processIncomingMessage d m inc)) = messages m @ [row] \<and>
             ConversationID row = cid \<and> ConversationUUID row = uuid \<and>
             SourceID row = SourceID (im_Message inc)"
    by (rule exI)
qed

text \<open>
  At a reply whose in-reply-to id is the source id of a stored message of conversation 1:
  the reply is stored under conversation 1 and the conversations are as before.
\<close>

theorem C3_reply_attaches_to_found_conversation_witness:
  "contactStore_Upsert deps_ok (im_Contact incoming_reply) = Inr 7 \<and>
   MessageExistsBySourceID (messages manager_seen)
     [null_String (SourceID (im_Message incoming_reply))] = None \<and>
   thread_source_ids (im_Message incoming_reply) = [''<a1@example.com>''] \<and>
   MessageExistsBySourceID (messages manager_seen)
     (thread_source_ids (im_Message incoming_reply)) = Some 1 \<and>
   GetConversationUUID deps_ok manager_seen 1 = Inr ''c-1'' \<and>
   map c_ID (conversations (snd (processIncomingMessage deps_ok manager_seen incoming_reply))) = [1] \<and>
   map ConversationID (messages (snd (processIncomingMessage deps_ok manager_seen incoming_reply))) =
     [1, 1, 1]"
proof -
  let ?m1 = "snd (processIncomingMessage deps_ok manager_seen incoming_reply)"
  have u: "contactStore_Upsert deps_ok (im_Contact incoming_reply) = Inr 7"
    by simp
  have own: "MessageExistsBySourceID (messages manager_seen)
     [null_String (SourceID (im_Message incoming_reply))] = None"
    using lookups_manager_seen(2) by simp
  have ch: "thread_source_ids (im_Message incoming_reply) = [''<a1@example.com>'']"
    by (simp add: thread_source_ids_def)
  have th: "MessageExistsBySourceID (messages manager_seen)
     (thread_source_ids (im_Message incoming_reply)) = Some 1"
    using lookups_manager_seen(1) ch by simp
  have db: "db_error deps_ok MessageExistsBySourceIDStmt = None"
      "db_error deps_ok InsertMessageStmt = None"
    by simp_all
  have nz: "(1::int) \<noteq> 0" by simp
  note T = C3_reply_attaches_to_found_conversation
      [where d = deps_ok and m = manager_seen and inc = incoming_reply and cid = 1
         and uuid = "''c-1''" and senderID = 7]
  from T u db own th nz lookups_manager_seen(3)
  have "map c_ID (conversations ?m1) = map c_ID (conversations manager_seen) \<and>
      (\<exists>row. messages ?m1 = messages manager_seen @ [row] \<and>
             ConversationID row = 1 \<and> ConversationUUID row = ''c-1'' \<and>
             SourceID row = SourceID (im_Message incoming_reply))"
    by blast
  then obtain row where "map c_ID (conversations ?m1) = map c_ID (conversations manager_seen)"
    and "messages ?m1 = messages manager_seen @ [row]" and "ConversationID row = 1"
    by blast
  then have "map c_ID (conversations ?m1) = [1] \<and> map ConversationID (messages ?m1) = [1, 1, 1]"
    by simp
  then show ?thesis
    using u own ch th lookups_manager_seen(3) by blast
qed

text \<open>
  Claim C3 as stated fails: the source id of the incoming message itself matches a stored
  message of conversation 1, and the message is discarded, not attached: storage is as
  before.
\<close>

theorem C3_own_source_id_match_is_discarded:
  "MessageExistsBySourceID (messages manager_seen)
     [null_String (SourceID (im_Message incoming1))] = Some 1 \<and>
   processIncomingMessage deps_ok manager_seen incoming1 = (None, manager_seen) \<and>
   messages (snd (processIncomingMessage deps_ok manager_seen incoming1)) = [reply1, received1]"
  by (simp add: processIncomingMessage_def findConversationID_def Let_def)

text \<open>
  Claim C4, as amended. A dispatch worker deletes the id of the message it has processed
  from the in-flight set in every case. If fetching the inbox, attaching the attachments or
  the channel's send fails and the status update succeeds, every stored message of that
  UUID has the status failed, and it is then not a candidate of the scan. Once a later
  \<^verbatim>\<open>MarkMessageAsPending\<close> of the message has succeeded, the stored outgoing message of
  that id and UUID is a candidate of the next scan.
\<close>

theorem C4_dispatch_clears_in_flight_and_marks_failed:
  "ID message \<notin> set (getOutgoingProcessingMessageIDs (dispatch_message d m message)) \<and>
   (dispatch_fails d message \<and> db_error d UpdateMessageStatusStmt = None \<longrightarrow>
      (\<forall>x\<in>set (messages (dispatch_message d m message)).
          UUID x = UUID message \<longrightarrow>
            Status x = MessageStatusFailed \<and>
            x \<notin> set (GetPendingMessages (messages (dispatch_message d m message))
                        (getOutgoingProcessingMessageIDs (dispatch_message d m message))))) \<and>
   (MarkMessageAsPending d2 (dispatch_message d m message) (UUID message) = (None, m2) \<longrightarrow>
      (\<forall>x\<in>set (messages m2).
          UUID x = UUID message \<and> ID x = ID message \<and> Type x = MessageOutgoing \<longrightarrow>
            x \<in> set (GetPendingMessages (messages m2) (getOutgoingProcessingMessageIDs m2))))"
proof -
  let ?m1 = "dispatch_message d m message"
  have a: "ID message \<notin> set (getOutgoingProcessingMessageIDs ?m1)"
    by (simp add: getOutgoingProcessingMessageIDs_def dispatch_message_in_flight)
  have b: "dispatch_fails d message \<and> db_error d UpdateMessageStatusStmt = None \<longrightarrow>
      (\<forall>x\<in>set (messages ?m1).
          UUID x = UUID message \<longrightarrow>
            Status x = MessageStatusFailed \<and>
            x \<notin> set (GetPendingMessages (messages ?m1) (getOutgoingProcessingMessageIDs ?m1)))"
  proof (intro impI ballI)
    fix x
    assume h: "dispatch_fails d message \<and> db_error d UpdateMessageStatusStmt = None"
      and x: "x \<in> set (messages ?m1)" and u: "UUID x = UUID message"
    have "messages ?m1 = update_message_status (messages m) MessageStatusFailed (UUID message)"
      using h dispatch_message_failed by blast
    then have st: "Status x = MessageStatusFailed"
      using x u update_message_status_member by metis
    then have "x \<notin> set (GetPendingMessages (messages ?m1) (getOutgoingProcessingMessageIDs ?m1))"
      using failed_not_pending by (simp add: GetPendingMessages_def)
    then show "Status x = MessageStatusFailed \<and>
            x \<notin> set (GetPendingMessages (messages ?m1) (getOutgoingProcessingMessageIDs ?m1))"
      using st by blast
  qed
  have c: "MarkMessageAsPending d2 ?m1 (UUID message) = (None, m2) \<longrightarrow>
      (\<forall>x\<in>set (messages m2).
          UUID x = UUID message \<and> ID x = ID message \<and> Type x = MessageOutgoing \<longrightarrow>
            x \<in> set (GetPendingMessages (messages m2) (getOutgoingProcessingMessageIDs m2)))"
  proof (intro impI ballI)
    fix x
    assume mk: "MarkMessageAsPending d2 ?m1 (UUID message) = (None, m2)"
      and x: "x \<in> set (messages m2)"
      and h: "UUID x = UUID message \<and> ID x = ID message \<and> Type x = MessageOutgoing"
    have ok: "db_error d2 UpdateMessageStatusStmt = None"
      using mk by (cases "db_error d2 UpdateMessageStatusStmt")
        (simp_all add: MarkMessageAsPending_def UpdateMessageStatus_def)
    have m2: "m2 = snd (UpdateMessageStatus d2 ?m1 (UUID message) MessageStatusPending)"
      using mk by (simp add: MarkMessageAsPending_def split: prod.splits option.splits)
    have fl: "outgoingProcessingMessages m2 = outgoingProcessingMessages ?m1"
      by (simp add: m2)
    have "messages m2 = update_message_status (messages ?m1) MessageStatusPending (UUID message)"
      using ok by (simp add: m2 UpdateMessageStatus_messages)
    then have st: "Status x = MessageStatusPending"
      using x h update_message_status_member by metis
    have "ID x \<notin> set (outgoingProcessingMessages m2)"
      using fl h dispatch_message_in_flight[of message d m] by simp
    then show "x \<in> set (GetPendingMessages (messages m2) (getOutgoingProcessingMessageIDs m2))"
      using st x h by (simp add: GetPendingMessages_def getOutgoingProcessingMessageIDs_def)
  qed
  show ?thesis using a b c by blast
qed

text \<open>
  At the pending reply on an inbox whose send fails: the reply is marked failed; after
  \<^verbatim>\<open>MarkMessageAsPending\<close> it is a candidate of the scan again.
\<close>

theorem C4_dispatch_clears_in_flight_and_marks_failed_witness:
  "dispatch_fails deps_send_fails reply1 \<and>
   db_error deps_send_fails UpdateMessageStatusStmt = None \<and>
   messages (dispatch_message deps_send_fails manager_in_flight reply1) =
     [reply1\<lparr>Status := MessageStatusFailed\<rparr>] \<and>
   fst (MarkMessageAsPending deps_ok
          (dispatch_message deps_send_fails manager_in_flight reply1) (UUID reply1)) = None \<and>
   reply1 \<in> set (GetPendingMessages
      (messages (snd (MarkMessageAsPending deps_ok
          (dispatch_message deps_send_fails manager_in_flight reply1) (UUID reply1))))
      (getOutgoingProcessingMessageIDs (snd (MarkMessageAsPending deps_ok
          (dispatch_message deps_send_fails manager_in_flight reply1) (UUID reply1)))))"
proof -
  let ?m1 = "dispatch_message deps_send_fails manager_in_flight reply1"
  let ?r = "MarkMessageAsPending deps_ok ?m1 (UUID reply1)"
  have df: "dispatch_fails deps_send_fails reply1"
    by (simp add: dispatch_fails_def attachAttachmentsToMessage_def)
  have ok: "db_error deps_send_fails UpdateMessageStatusStmt = None"
    by simp
  have f: "fst ?r = None"
    by (simp add: MarkMessageAsPending_def UpdateMessageStatus_def Let_def)
  then have mk: "?r = (None, snd ?r)"
    by (metis prod.collapse)
  have ms: "messages (snd ?r) = [reply1]"
    using dispatch_failed_manager_in_flight
    by (simp add: MarkMessageAsPending_def UpdateMessageStatus_def Let_def
        BroadcastMessagePropUpdate_def MessageStatusPending_def reply1_def)
  have mem: "reply1 \<in> set (messages (snd ?r))"
    using ms by simp
  have h: "UUID reply1 = UUID reply1 \<and> ID reply1 = ID reply1 \<and> Type reply1 = MessageOutgoing"
    by (simp add: MessageOutgoing_def)
  note T = C4_dispatch_clears_in_flight_and_marks_failed
             [of reply1 deps_send_fails manager_in_flight deps_ok "snd ?r"]
  from T mk have "\<forall>x\<in>set (messages (snd ?r)).
          UUID x = UUID reply1 \<and> ID x = ID reply1 \<and> Type x = MessageOutgoing \<longrightarrow>
            x \<in> set (GetPendingMessages (messages (snd ?r))
                        (getOutgoingProcessingMessageIDs (snd ?r)))"
    by blast
  then have "reply1 \<in> set (GetPendingMessages (messages (snd ?r))
                        (getOutgoingProcessingMessageIDs (snd ?r)))"
    using mem h by blast
  then show ?thesis
    using df ok f dispatch_failed_manager_in_flight by blast
qed

text \<open>
  Claim C4 as stated fails: after a dispatch whose send fails, the message is failed, its id
  has left the in-flight set, and the candidates of the next scan are empty: the message
  does not reappear among them.
\<close>

theorem C4_failed_message_not_a_candidate:
  "dispatch_fails deps_send_fails reply1 \<and>
   map Status (messages (MessageDispatchWorker deps_send_fails manager_dispatching)) =
     [MessageStatusFailed] \<and>
   getOutgoingProcessingMessageIDs (MessageDispatchWorker deps_send_fails manager_dispatching) = [] \<and>
   GetPendingMessages (messages (MessageDispatchWorker deps_send_fails manager_dispatching))
     (getOutgoingProcessingMessageIDs (MessageDispatchWorker deps_send_fails manager_dispatching)) = []"
  by (simp add: manager_dispatching_def MessageDispatchWorker_def dispatch_fails_def
      dispatch_message_def attachAttachmentsToMessage_def address_message_def
      UpdateMessageStatus_def BroadcastMessagePropUpdate_def Let_def
      GetPendingMessages_def getOutgoingProcessingMessageIDs_def
      Delete_def failed_not_sent failed_not_pending)




text \<open>
  Claim C6. \<^verbatim>\<open>EnqueueIncoming\<close> fails with the queue-closed error for every call on a closed
  manager, and \<^verbatim>\<open>Close\<close> closes it; on an open manager whose bounded incoming queue has no
  free place it fails with the queue-full error and leaves the manager as it was; otherwise
  it appends the message and returns nil. The queue never grows beyond its bound, and
  no call reopens the manager or changes the bound.
\<close>

theorem C6_EnqueueIncoming_closed_full_or_enqueued:
  "(closed m \<longrightarrow>
      EnqueueIncoming m message = (Some (ErrorsNew ''incoming message queue is closed''), m)) \<and>
   EnqueueIncoming (Close m) message =
      (Some (ErrorsNew ''incoming message queue is closed''), Close m) \<and>
   (\<not> closed m \<and> incomingQueueCap m \<le> length (incomingMessageQueue m) \<longrightarrow>
      EnqueueIncoming m message = (Some (ErrorsNew ''incoming message queue is full''), m)) \<and>
   (\<not> closed m \<and> length (incomingMessageQueue m) < incomingQueueCap m \<longrightarrow>
      EnqueueIncoming m message =
        (None, m\<lparr>incomingMessageQueue := incomingMessageQueue m @ [message]\<rparr>)) \<and>
   (length (incomingMessageQueue m) \<le> incomingQueueCap m \<longrightarrow>
      length (incomingMessageQueue (snd (EnqueueIncoming m message))) \<le> incomingQueueCap m) \<and>
   closed (snd (EnqueueIncoming m message)) = closed m \<and>
   incomingQueueCap (snd (EnqueueIncoming m message)) = incomingQueueCap m"
  by (simp add: EnqueueIncoming_def Close_def)

text \<open>
  At the manager with an empty incoming queue of one place: the first message is enqueued,
  the second finds the queue full, and after \<^verbatim>\<open>Close\<close> the queue is closed.
\<close>

theorem C6_EnqueueIncoming_witness:
  "\<not> closed manager1 \<and>
   length (incomingMessageQueue manager1) < incomingQueueCap manager1 \<and>
   EnqueueIncoming manager1 incoming1 =
     (None, manager1\<lparr>incomingMessageQueue := [incoming1]\<rparr>) \<and>
   incomingQueueCap (manager1\<lparr>incomingMessageQueue := [incoming1]\<rparr>)
     \<le> length (incomingMessageQueue (manager1\<lparr>incomingMessageQueue := [incoming1]\<rparr>)) \<and>
   EnqueueIncoming (manager1\<lparr>incomingMessageQueue := [incoming1]\<rparr>) incoming1 =
     (Some (ErrorsNew ''incoming message queue is full''),
      manager1\<lparr>incomingMessageQueue := [incoming1]\<rparr>) \<and>
   closed (Close manager1) \<and>
   EnqueueIncoming (Close manager1) incoming1 =
     (Some (ErrorsNew ''incoming message queue is closed''), Close manager1)"
proof -
  have open1: "\<not> closed manager1"
    and room: "length (incomingMessageQueue manager1) < incomingQueueCap manager1"
    and q: "incomingMessageQueue manager1 = []"
    by (simp_all add: manager1_def)
  have open2: "\<not> closed (manager1\<lparr>incomingMessageQueue := [incoming1]\<rparr>)"
    and full: "incomingQueueCap (manager1\<lparr>incomingMessageQueue := [incoming1]\<rparr>)
       \<le> length (incomingMessageQueue (manager1\<lparr>incomingMessageQueue := [incoming1]\<rparr>))"
    by (simp_all add: manager1_def)
  have cl: "closed (Close manager1)"
    by (simp add: Close_def)
  show ?thesis
    using C6_EnqueueIncoming_closed_full_or_enqueued [of manager1 incoming1]
      C6_EnqueueIncoming_closed_full_or_enqueued
        [of "manager1\<lparr>incomingMessageQueue := [incoming1]\<rparr>" incoming1]
      open1 room q open2 full cl
    by simp
qed



text \<open>
  Claim C8, as amended. After an \<^verbatim>\<open>InsertMessage\<close> that returns nil, and whose update of
  the summary succeeds, the message is stored and every conversation of the message's
  UUID has as its last-message summary the content sanitized and truncated at 45, with
  the created timestamp of the message. A newly created conversation is seeded with the
  content sanitized and truncated at 45 and with the current time. Dispatching a message
  changes no summary.
\<close>

theorem C8_summary_follows_inserted_message:
  "(fst (fst (InsertMessage d m message)) = None \<and>
    db_error d UpdateConversationLastMessageOp = None \<longrightarrow>
      (\<exists>row. messages (snd (InsertMessage d m message)) = messages m @ [row] \<and>
             Content row = Content message \<and>
             CreatedAt row = CreatedAt (snd (fst (InsertMessage d m message)))) \<and>
      (\<forall>c\<in>set (conversations (snd (InsertMessage d m message))).
          c_UUID c = ConversationUUID message \<longrightarrow>
            c_LastMessage c = SanitizeAndTruncate d (Content message) 45 \<and>
            c_LastMessageAt c = CreatedAt (snd (fst (InsertMessage d m message))))) \<and>
   (findOrCreateConversation d m inm inboxID contactID = ((True, None, inm1), m1) \<longrightarrow>
      (\<exists>c. conversations m1 = conversations m @ [c] \<and> c_UUID c = ConversationUUID inm1 \<and>
           c_LastMessage c = SanitizeAndTruncate d (Content inm) maxLastMessageLen \<and>
           c_LastMessageAt c = now d)) \<and>
   maxLastMessageLen = 45 \<and>
   map (\<lambda>c. (c_UUID c, c_LastMessage c, c_LastMessageAt c))
       (conversations (dispatch_message d m message)) =
     map (\<lambda>c. (c_UUID c, c_LastMessage c, c_LastMessageAt c)) (conversations m)"
proof (intro conjI impI ballI)
  assume h: "fst (fst (InsertMessage d m message)) = None \<and>
    db_error d UpdateConversationLastMessageOp = None"
  then have ok: "db_error d InsertMessageStmt = None"
      "db_error d AddConversationParticipantOp = None"
      "db_error d UpdateConversationLastMessageOp = None"
    using InsertMessage_ok_iff by blast+
  from InsertMessage_inserted[OF ok(1), of m message] obtain row where
    row: "messages (snd (InsertMessage d m message)) = messages m @ [row]"
      "Content row = Content message" "CreatedAt row = created_at d"
      "CreatedAt (snd (fst (InsertMessage d m message))) = CreatedAt row"
    by blast
  then have "messages (snd (InsertMessage d m message)) = messages m @ [row] \<and>
             Content row = Content message \<and>
             CreatedAt row = CreatedAt (snd (fst (InsertMessage d m message)))"
    by simp
  then show "\<exists>row. messages (snd (InsertMessage d m message)) = messages m @ [row] \<and>
             Content row = Content message \<and>
             CreatedAt row = CreatedAt (snd (fst (InsertMessage d m message)))"
    by (rule exI)
  fix c
  assume c: "c \<in> set (conversations (snd (InsertMessage d m message)))"
    and u: "c_UUID c = ConversationUUID message"
  have "c \<in> set (map (\<lambda>c. if c_UUID c = ConversationUUID message
                     then c\<lparr>c_LastMessage := SanitizeAndTruncate d (Content message) 45,
                            c_LastMessageAt := created_at d\<rparr>
                     else c) (conversations m))"
    using c ok by (simp add: InsertMessage_conversations)
  from summary_after_update[OF this u]
  show "c_LastMessage c = SanitizeAndTruncate d (Content message) 45"
    and "c_LastMessageAt c = CreatedAt (snd (fst (InsertMessage d m message)))"
    using row by simp_all
next
  assume f: "findOrCreateConversation d m inm inboxID contactID = ((True, None, inm1), m1)"
  let ?c = "\<lparr>c_ID = ConversationID inm1, c_UUID = ConversationUUID inm1,
           c_ContactID = contactID, c_InboxID = inboxID, c_Subject = Subject inm,
           c_LastMessage = SanitizeAndTruncate d (Content inm) maxLastMessageLen,
           c_LastMessageAt = now d, c_FirstReplyAt = None\<rparr>"
  from findOrCreateConversation_ok[OF f]
  have "conversations m1 = conversations m @ [?c]"
    by simp
  then have "conversations m1 = conversations m @ [?c] \<and> c_UUID ?c = ConversationUUID inm1 \<and>
           c_LastMessage ?c = SanitizeAndTruncate d (Content inm) maxLastMessageLen \<and>
           c_LastMessageAt ?c = now d"
    by simp
  then show "\<exists>c. conversations m1 = conversations m @ [c] \<and> c_UUID c = ConversationUUID inm1 \<and>
           c_LastMessage c = SanitizeAndTruncate d (Content inm) maxLastMessageLen \<and>
           c_LastMessageAt c = now d"
    by (rule exI)
next
  show "maxLastMessageLen = 45"
    by (simp add: maxLastMessageLen_def)
next
  show "map (\<lambda>c. (c_UUID c, c_LastMessage c, c_LastMessageAt c))
       (conversations (dispatch_message d m message)) =
     map (\<lambda>c. (c_UUID c, c_LastMessage c, c_LastMessageAt c)) (conversations m)"
    by (rule conversations_dispatch_summary)
qed

text \<open>
  At a new reply to conversation \<open>c-1\<close>: the summary becomes the content of the reply with
  its created timestamp; and a conversation created for a first message is seeded with
  the content of that message.
\<close>

theorem C8_summary_follows_inserted_message_witness:
  "fst (fst (InsertMessage deps_ok manager1 new_reply)) = None \<and>
   db_error deps_ok UpdateConversationLastMessageOp = None \<and>
   map c_LastMessage (conversations (snd (InsertMessage deps_ok manager1 new_reply))) =
     [SanitizeAndTruncate deps_ok (Content new_reply) 45] \<and>
   map c_LastMessageAt (conversations (snd (InsertMessage deps_ok manager1 new_reply))) =
     [CreatedAt (snd (fst (InsertMessage deps_ok manager1 new_reply)))] \<and>
   SanitizeAndTruncate deps_ok (Content new_reply) 45 = ''thanks'' \<and>
   fst (fst (findOrCreateConversation deps_ok manager1 (im_Message incoming1) 1 7)) \<and>
   map c_LastMessage
     (conversations (snd (findOrCreateConversation deps_ok manager1 (im_Message incoming1) 1 7))) =
     [''older'', ''I need help'']"
proof -
  let ?r = "InsertMessage deps_ok manager1 new_reply"
  let ?c = "conversation1\<lparr>c_LastMessage := ''thanks'', c_LastMessageAt := 1001\<rparr>"
  let ?inm1 = "(im_Message incoming1)\<lparr>ConversationID := 2, ConversationUUID := ''c-new''\<rparr>"
  let ?f = "findOrCreateConversation deps_ok manager1 (im_Message incoming1) 1 7"
  have ok: "fst (fst ?r) = None" and cs: "conversations (snd ?r) = [?c]"
    using InsertMessage_new_reply by blast+
  have db: "db_error deps_ok UpdateConversationLastMessageOp = None"
    by simp
  have mem: "?c \<in> set (conversations (snd ?r))" and u: "c_UUID ?c = ConversationUUID new_reply"
    using cs by simp_all
  note T = C8_summary_follows_inserted_message
      [where d = deps_ok and m = manager1 and message = new_reply
         and inm = "im_Message incoming1" and inboxID = 1 and contactID = 7
         and ?inm1.0 = ?inm1 and ?m1.0 = "snd ?f"]
  from T ok db
  have "\<forall>c\<in>set (conversations (snd ?r)).
          c_UUID c = ConversationUUID new_reply \<longrightarrow>
            c_LastMessage c = SanitizeAndTruncate deps_ok (Content new_reply) 45 \<and>
            c_LastMessageAt c = CreatedAt (snd (fst ?r))"
    by blast
  then have "c_LastMessage ?c = SanitizeAndTruncate deps_ok (Content new_reply) 45 \<and>
            c_LastMessageAt ?c = CreatedAt (snd (fst ?r))"
    using mem u by blast
  then have a: "map c_LastMessage (conversations (snd ?r)) =
      [SanitizeAndTruncate deps_ok (Content new_reply) 45] \<and>
    map c_LastMessageAt (conversations (snd ?r)) = [CreatedAt (snd (fst ?r))]"
    by (simp only: cs list.map)
  have b: "SanitizeAndTruncate deps_ok (Content new_reply) 45 = ''thanks''"
    by simp
  have f: "?f = ((True, None, ?inm1), snd ?f)" and isnew: "fst (fst ?f)"
    by (simp_all add: findOrCreateConversation_incoming1)
  from T f obtain c where "conversations (snd ?f) = conversations manager1 @ [c]"
    and "c_LastMessage c = SanitizeAndTruncate deps_ok (Content (im_Message incoming1)) maxLastMessageLen"
    by blast
  then have seed: "map c_LastMessage (conversations (snd ?f)) = [''older'', ''I need help'']"
    by (simp add: maxLastMessageLen_def)
  show ?thesis
    using ok db a b isnew seed by blast
qed

text \<open>
  Claim C8 as stated fails: when adding the sender as a participant fails,
  \<^verbatim>\<open>InsertMessage\<close> returns an error after the message has been stored, and the summary
  of the conversation is still the older one.
\<close>

theorem C8_summary_stale_when_participant_fails:
  "fst (fst (InsertMessage deps_participant_fails manager1 new_reply)) =
     Some (EnvelopeError GeneralError ''Error sending message'') \<and>
   map Content (messages (snd (InsertMessage deps_participant_fails manager1 new_reply))) =
     [''hello'', ''thanks''] \<and>
   map c_LastMessage (conversations (snd (InsertMessage deps_participant_fails manager1 new_reply))) =
     [''older''] \<and>
   SanitizeAndTruncate deps_participant_fails (Content new_reply) 45 = ''thanks''"
  by (simp add: InsertMessage_def Let_def AddConversationParticipant_def insert_message_row_def)



text \<open>
  Claim C10. Whatever page and page size \<^verbatim>\<open>GetConversationMessages\<close> is called with, the
  query it runs has the arguments conversation UUID, limit and offset, where the limit is
  between 1 and 30 (30 when the page size is not positive or above 30, the page size
  otherwise) and the offset is the product of the page minus one and the limit, with 1
  for a page that is not positive. The product is Go's: it wraps around at 64 bits, and it is
  the mathematical product for every page up to 307445734561825861.
\<close>

theorem C10_pagination_clamped:
  "\<exists>limit offset.
     generateMessagesQuery (q_GetMessages d) [ArgStr conversationUUID] page pageSize =
       (q_GetMessages d ''LIMIT $2 OFFSET $3'',
        [ArgStr conversationUUID, ArgInt limit, ArgInt offset], None) \<and>
     (db_error d BeginTxx = None \<longrightarrow>
        GetConversationMessages d conversationUUID page pageSize =
          (case tx_Select d (q_GetMessages d ''LIMIT $2 OFFSET $3'')
                  [ArgStr conversationUUID, ArgInt limit, ArgInt offset] of
             Inl err \<Rightarrow> Returned ([], Some (EnvelopeError GeneralError ''Error fetching messages''))
           | Inr msgs \<Rightarrow> Returned (msgs, None))) \<and>
     1 \<le> sint limit \<and> sint limit \<le> 30 \<and>
     (pageSize \<le>s 0 \<or> 30 <s pageSize \<longrightarrow> limit = 30) \<and>
     (0 <s pageSize \<and> pageSize \<le>s 30 \<longrightarrow> limit = pageSize) \<and>
     (page \<le>s 0 \<longrightarrow> offset = 0) \<and>
     (0 <s page \<longrightarrow> offset = (page - 1) * limit) \<and>
     (0 < sint page \<and> sint page \<le> 307445734561825861 \<longrightarrow>
        sint offset = (sint page - 1) * sint limit)"
proof -
  define limit where
    "limit = (if pageSize \<le>s 0 \<or> maxMessagesPerPage <s pageSize then maxMessagesPerPage else pageSize)"
  define page1 where "page1 = (if page \<le>s 0 then 1 else page)"
  have lim: "1 \<le> sint limit" "sint limit \<le> 30"
    using sint_clamped_pageSize[of pageSize] by (simp_all add: limit_def)
  have eq: "generateMessagesQuery (q_GetMessages d) [ArgStr conversationUUID] page pageSize =
       (q_GetMessages d ''LIMIT $2 OFFSET $3'',
        [ArgStr conversationUUID, ArgInt limit, ArgInt ((page1 - 1) * limit)], None)"
    by (simp add: generateMessagesQuery_def Let_def limit_def page1_def show_nat_2 show_nat_3)
  have call: "db_error d BeginTxx = None \<longrightarrow>
        GetConversationMessages d conversationUUID page pageSize =
          (case tx_Select d (q_GetMessages d ''LIMIT $2 OFFSET $3'')
                  [ArgStr conversationUUID, ArgInt limit, ArgInt ((page1 - 1) * limit)] of
             Inl err \<Rightarrow> Returned ([], Some (EnvelopeError GeneralError ''Error fetching messages''))
           | Inr msgs \<Rightarrow> Returned (msgs, None))"
    by (simp add: GetConversationMessages_def eq)
  have a: "pageSize \<le>s 0 \<or> 30 <s pageSize \<longrightarrow> limit = 30"
    by (auto simp: limit_def maxMessagesPerPage_def)
  have b: "0 <s pageSize \<and> pageSize \<le>s 30 \<longrightarrow> limit = pageSize"
    by (auto simp: limit_def maxMessagesPerPage_def word_sle_eq word_sless_alt)
  have c: "page \<le>s 0 \<longrightarrow> (page1 - 1) * limit = 0"
    by (simp add: page1_def)
  have dd: "0 <s page \<longrightarrow> (page1 - 1) * limit = (page - 1) * limit"
    by (auto simp: page1_def word_sle_eq word_sless_alt)
  have e: "0 < sint page \<and> sint page \<le> 307445734561825861 \<longrightarrow>
        sint ((page1 - 1) * limit) = (sint page - 1) * sint limit"
  proof
    assume h: "0 < sint page \<and> sint page \<le> 307445734561825861"
    then have "page1 = page" by (auto simp: page1_def word_sle_eq)
    then show "sint ((page1 - 1) * limit) = (sint page - 1) * sint limit"
      using sint_offset_no_overflow[of page limit] h lim by simp
  qed
  show ?thesis
    apply (rule exI[of _ limit])
    apply (rule exI[of _ "(page1 - 1) * limit"])
    using eq call lim a b c dd e apply simp
    done
qed

text \<open>
  At page 0 with page size 100 the limit is 30 and the offset 0; at page 3 with page size
  10 the limit is 10 and the offset 20.
\<close>

theorem C10_pagination_clamped_witness:
  "(0::64 word) \<le>s 0 \<and> (30::64 word) <s 100 \<and>
   fst (snd (generateMessagesQuery (q_GetMessages deps_ok) [ArgStr ''c-1''] 0 100)) =
     [ArgStr ''c-1'', ArgInt 30, ArgInt 0] \<and>
   (0::64 word) <s 3 \<and> (0::64 word) <s 10 \<and> (10::64 word) \<le>s 30 \<and>
   fst (snd (generateMessagesQuery (q_GetMessages deps_ok) [ArgStr ''c-1''] 3 10)) =
     [ArgStr ''c-1'', ArgInt 10, ArgInt 20] \<and>
   GetConversationMessages deps_ok ''c-1'' 3 10 = Returned ([], None)"
proof -
  have h1: "(0::64 word) \<le>s 0" "(30::64 word) <s 100"
    by (simp_all add: word_sle_eq word_sless_alt)
  have h2: "(0::64 word) <s 3" "(0::64 word) <s 10" "(10::64 word) \<le>s 30"
    by (simp_all add: word_sle_eq word_sless_alt)
  have tx: "db_error deps_ok BeginTxx = None" "\<And>q a. tx_Select deps_ok q a = Inr []"
    by (simp_all add: deps_ok_def)
  from C10_pagination_clamped[of deps_ok "''c-1''" 0 100] h1
  have w1: "fst (snd (generateMessagesQuery (q_GetMessages deps_ok) [ArgStr ''c-1''] 0 100)) =
     [ArgStr ''c-1'', ArgInt 30, ArgInt 0]"
    by auto
  from C10_pagination_clamped[of deps_ok "''c-1''" 3 10] h2 tx
  have w2: "fst (snd (generateMessagesQuery (q_GetMessages deps_ok) [ArgStr ''c-1''] 3 10)) =
     [ArgStr ''c-1'', ArgInt 10, ArgInt 20] \<and>
     GetConversationMessages deps_ok ''c-1'' 3 10 = Returned ([], None)"
    by auto
  show ?thesis
    using h1 h2 w1 w2 by simp
qed

end
